theory Spec2Isabelle
  imports Complex_Main "HOL-Library.AList"
begin

section \<open>JavaScript values and strings\<close>

text \<open>
  Message fields arrive as parsed JSON, so a terminal id may be any JavaScript value.
  Strings are lists of code units (restricted to the Latin-1 range); numbers that the
  handlers only test for truthiness are integers.
\<close>

datatype jsval = JUndefined | JNull | JBool bool | JNum int | JStr string | JObj

fun truthy :: "jsval \<Rightarrow> bool" where
  "truthy JUndefined = False"
| "truthy JNull = False"
| "truthy (JBool b) = b"
| "truthy (JNum n) = (n \<noteq> 0)"
| "truthy (JStr s) = (s \<noteq> [])"
| "truthy JObj = True"

fun is_string :: "jsval \<Rightarrow> bool" where
  "is_string (JStr s) = True"
| "is_string _ = False"

fun the_string :: "jsval \<Rightarrow> string" where
  "the_string (JStr s) = s"
| "the_string _ = []"

text \<open>White space removed by \<open>String.prototype.trim\<close>: TAB, LF, VT, FF, CR, SP, NBSP.\<close>

definition is_ws :: "char \<Rightarrow> bool" where
  "is_ws c = (c \<in> set [CHR 0x09, CHR 0x0A, CHR 0x0B, CHR 0x0C, CHR 0x0D, CHR 0x20, CHR 0xA0])"

definition trim :: "string \<Rightarrow> string" where
  "trim s = rev (dropWhile is_ws (rev (dropWhile is_ws s)))"

text \<open>
  The guard shared by all entry points:
  \<open>!terminalId || typeof terminalId !== 'string' || terminalId.trim() === ''\<close>.
\<close>

definition invalid_terminal_id :: "jsval \<Rightarrow> bool" where
  "invalid_terminal_id terminalId =
     (\<not> truthy terminalId \<or> \<not> is_string terminalId \<or> trim (the_string terminalId) = [])"

text \<open>\<open>a || b\<close> on an optional string and on an optional number.\<close>

definition or_str :: "string option \<Rightarrow> string \<Rightarrow> string" where
  "or_str a b = (case a of None \<Rightarrow> b | Some s \<Rightarrow> if s = [] then b else s)"

definition or_int :: "int option \<Rightarrow> int \<Rightarrow> int" where
  "or_int a b = (case a of None \<Rightarrow> b | Some n \<Rightarrow> if n = 0 then b else n)"

definition or_real :: "real option \<Rightarrow> real \<Rightarrow> real" where
  "or_real a b = (case a of None \<Rightarrow> b | Some r \<Rightarrow> if r = 0 then b else r)"

text \<open>Truthiness of an optional string (\<open>undefined\<close>, \<open>null\<close> and \<open>''\<close> are falsy).\<close>

definition truthy_str :: "string option \<Rightarrow> bool" where
  "truthy_str a = (case a of None \<Rightarrow> False | Some s \<Rightarrow> s \<noteq> [])"

datatype exn = TypeError string | DbError | BankError string | Error string

fun exn_message :: "exn \<Rightarrow> string" where
  "exn_message (TypeError m) = m"
| "exn_message DbError = ''SQLITE_CONSTRAINT''"
| "exn_message (BankError m) = m"
| "exn_message (Error m) = m"

section \<open>The Payment model (models/Payment.js)\<close>

type_synonym timestamp = nat

text \<open>
  A time held by a \<open>Payment\<close> instance is a \<open>Date\<close> object, made by \<open>new Date()\<close>, or
  the ISO string read from a column of a database row. Only a \<open>Date\<close> has the method
  \<open>toISOString\<close>; calling it on a string throws a \<open>TypeError\<close> whose message names
  the receiver as it is written in the source.
\<close>

datatype js_time = Date timestamp | Iso timestamp

fun toISOString :: "string \<Rightarrow> js_time \<Rightarrow> exn + timestamp" where
  "toISOString receiver (Date t) = Inr t"
| "toISOString receiver (Iso t) = Inl (TypeError (receiver @ ''.toISOString is not a function''))"

record payment =
  p_id :: string
  p_terminalId :: string
  p_amount :: int
  p_currency :: string
  p_method :: string
  p_status :: string
  p_bankTransactionId :: "string option"
  p_errorCode :: "string option"
  p_createdAt :: js_time
  p_completedAt :: "js_time option"

text \<open>A row of the table \<open>payments\<close>; the two time columns hold ISO strings.\<close>

record payment_row =
  r_id :: string
  r_terminalId :: string
  r_amount :: int
  r_currency :: string
  r_method :: string
  r_status :: string
  r_bankTransactionId :: "string option"
  r_errorCode :: "string option"
  r_createdAt :: timestamp
  r_completedAt :: "timestamp option"

text \<open>
  The object handed to the constructor: every property may be missing. A database row
  and a camel-case data object carry the same properties under two spellings
  (\<open>terminal_id\<close>/\<open>terminalId\<close>, ...), merged here into one field each.
\<close>

record payment_data =
  d_id :: "string option"
  d_terminalId :: "string option"
  d_amount :: "int option"
  d_currency :: "string option"
  d_method :: "string option"
  d_status :: "string option"
  d_bankTransactionId :: "string option"
  d_errorCode :: "string option"
  d_createdAt :: "js_time option"
  d_completedAt :: "js_time option"

definition no_data :: payment_data where
  "no_data = \<lparr> d_id = None, d_terminalId = None, d_amount = None, d_currency = None,
      d_method = None, d_status = None, d_bankTransactionId = None, d_errorCode = None,
      d_createdAt = None, d_completedAt = None \<rparr>"

text \<open>
  \<open>constructor(data)\<close>; \<open>uuid\<close> is the value \<open>uuidv4()\<close> returns and \<open>now\<close> the clock
  read by \<open>new Date()\<close>.
\<close>

definition Payment_new :: "payment_data \<Rightarrow> string \<Rightarrow> timestamp \<Rightarrow> payment" where
  "Payment_new data uuid now =
     \<lparr> p_id = or_str (d_id data) uuid,
       p_terminalId = or_str (d_terminalId data) [],
       p_amount = or_int (d_amount data) 0,
       p_currency = or_str (d_currency data) ''RUB'',
       p_method = or_str (d_method data) [],
       p_status = or_str (d_status data) ''pending'',
       p_bankTransactionId =
         (if truthy_str (d_bankTransactionId data) then d_bankTransactionId data else None),
       p_errorCode = (if truthy_str (d_errorCode data) then d_errorCode data else None),
       p_createdAt = (case d_createdAt data of None \<Rightarrow> Date now | Some t \<Rightarrow> t),
       p_completedAt = d_completedAt data \<rparr>"

text \<open>A stored row read back as constructor data (\<open>SELECT * FROM payments\<close>).\<close>

definition row_data :: "payment_row \<Rightarrow> payment_data" where
  "row_data r =
     \<lparr> d_id = Some (r_id r), d_terminalId = Some (r_terminalId r),
       d_amount = Some (r_amount r), d_currency = Some (r_currency r),
       d_method = Some (r_method r), d_status = Some (r_status r),
       d_bankTransactionId = r_bankTransactionId r, d_errorCode = r_errorCode r,
       d_createdAt = Some (Iso (r_createdAt r)),
       d_completedAt = map_option Iso (r_completedAt r) \<rparr>"

text \<open>
  The keys of an \<open>updateData\<close> object that the server passes to \<open>payment.update\<close>; a key
  is absent (\<open>None\<close>) or present with its value. The value of \<open>completedAt\<close> is always
  \<open>new Date()\<close>, given here by the clock. The key \<open>nfcData\<close> only sets a property of the
  instance that no column stores, so it is left out.
\<close>

record update_data =
  u_method :: "string option"
  u_status :: "string option"
  u_bankTransactionId :: "string option option"
  u_errorCode :: "string option option"
  u_completedAt :: "timestamp option"

definition no_update :: update_data where
  "no_update = \<lparr> u_method = None, u_status = None, u_bankTransactionId = None,
      u_errorCode = None, u_completedAt = None \<rparr>"

text \<open>The first half of \<open>update\<close>: assign every present key to the instance.\<close>

definition assign :: "payment \<Rightarrow> update_data \<Rightarrow> payment" where
  "assign p u =
     p \<lparr> p_method := (case u_method u of None \<Rightarrow> p_method p | Some v \<Rightarrow> v),
         p_status := (case u_status u of None \<Rightarrow> p_status p | Some v \<Rightarrow> v),
         p_bankTransactionId :=
           (case u_bankTransactionId u of None \<Rightarrow> p_bankTransactionId p | Some v \<Rightarrow> v),
         p_errorCode := (case u_errorCode u of None \<Rightarrow> p_errorCode p | Some v \<Rightarrow> v),
         p_completedAt :=
           (case u_completedAt u of None \<Rightarrow> p_completedAt p | Some v \<Rightarrow> Some (Date v)) \<rparr>"

text \<open>
  The parameter \<open>this.completedAt ? this.completedAt.toISOString() : null\<close> of the
  \<open>UPDATE\<close>, and the same with \<open>payment\<close> for \<open>this\<close> of the \<open>INSERT\<close>; \<open>object\<close> is
  the name under which the source holds the instance.
\<close>

definition completedAt_param :: "string \<Rightarrow> payment \<Rightarrow> exn + timestamp option" where
  "completedAt_param object p =
     (case p_completedAt p of
        None \<Rightarrow> Inr None
      | Some t \<Rightarrow> (case toISOString (object @ ''.completedAt'') t of
                    Inl error \<Rightarrow> Inl error
                  | Inr str \<Rightarrow> Inr (Some str)))"

text \<open>The row that \<open>INSERT\<close> stores for an instance, given the two time parameters.\<close>

definition insert_row :: "payment \<Rightarrow> timestamp \<Rightarrow> timestamp option \<Rightarrow> payment_row" where
  "insert_row p created completed =
     \<lparr> r_id = p_id p, r_terminalId = p_terminalId p, r_amount = p_amount p,
       r_currency = p_currency p, r_method = p_method p, r_status = p_status p,
       r_bankTransactionId = p_bankTransactionId p, r_errorCode = p_errorCode p,
       r_createdAt = created, r_completedAt = completed \<rparr>"

text \<open>
  The row after \<open>UPDATE payments SET terminal_id = ?, amount = ?, currency = ?, method = ?,
  status = ?, bank_transaction_id = ?, error_code = ?, completed_at = ? WHERE id = ?\<close>.
\<close>

definition update_row :: "payment_row \<Rightarrow> payment \<Rightarrow> timestamp option \<Rightarrow> payment_row" where
  "update_row row p completed =
     row \<lparr> r_terminalId := p_terminalId p, r_amount := p_amount p, r_currency := p_currency p,
           r_method := p_method p, r_status := p_status p,
           r_bankTransactionId := p_bankTransactionId p, r_errorCode := p_errorCode p,
           r_completedAt := completed \<rparr>"

section \<open>Terminals (models/Terminal.js)\<close>

record terminal =
  t_name :: string
  t_operator :: string
  t_status :: string
  t_location :: string

text \<open>The constructor's defaults as applied to a row found by id.\<close>

definition Terminal_new :: "terminal \<Rightarrow> terminal" where
  "Terminal_new row =
     \<lparr> t_name = t_name row, t_operator = t_operator row,
       t_status = (if t_status row = [] then ''active'' else t_status row),
       t_location = t_location row \<rparr>"

section \<open>The bank simulator (services/TestBankAPI.js)\<close>

record bankAPI =
  successRate :: real
  responseDelay :: real

text \<open>\<open>this.errorCodes\<close>, in the insertion order \<open>Object.keys\<close> enumerates.\<close>

definition errorCodes :: "(string \<times> string) list" where
  "errorCodes =
     [(''INSUFFICIENT_FUNDS'', ''E001''), (''CARD_BLOCKED'', ''E002''),
      (''NETWORK_ERROR'', ''E003''), (''INVALID_CARD'', ''E004''),
      (''EXPIRED_CARD'', ''E005''), (''TRANSACTION_DECLINED'', ''E006'')]"

text \<open>\<open>constructor(options = {})\<close>: both knobs are read with \<open>||\<close>.\<close>

definition TestBankAPI_new :: "real option \<Rightarrow> real option \<Rightarrow> bankAPI" where
  "TestBankAPI_new opt_successRate opt_responseDelay =
     \<lparr> successRate = or_real opt_successRate (9 / 10),
       responseDelay = or_real opt_responseDelay 500 \<rparr>"

definition setSuccessRate :: "bankAPI \<Rightarrow> real \<Rightarrow> bankAPI" where
  "setSuccessRate b rate = b \<lparr> successRate := max 0 (min 1 rate) \<rparr>"

definition setResponseDelay :: "bankAPI \<Rightarrow> real \<Rightarrow> bankAPI" where
  "setResponseDelay b delay = b \<lparr> responseDelay := max 0 delay \<rparr>"

definition messages :: "(string \<times> string) list" where
  "messages =
     [(''E001'', ''Insufficient funds''), (''E002'', ''Card is blocked''),
      (''E003'', ''Network connection error''), (''E004'', ''Invalid card data''),
      (''E005'', ''Card has expired''), (''E006'', ''Transaction declined by issuer'')]"

text \<open>\<open>getErrorMessage(errorCode)\<close>; the code may be \<open>undefined\<close>.\<close>

definition getErrorMessage :: "string option \<Rightarrow> string" where
  "getErrorMessage errorCode =
     or_str (case errorCode of None \<Rightarrow> None | Some c \<Rightarrow> map_of messages c) ''Unknown error''"

text \<open>
  \<open>generateRandomError()\<close>; \<open>r\<close> is the value of \<open>Math.random()\<close>. An index outside the
  array reads \<open>undefined\<close>, and so does the table at the key \<open>undefined\<close>. The product
  is taken exactly here, where the source rounds it to a double: for a few draws just
  below a multiple of one sixth the source picks the next key. Either way the index of a
  draw in \<open>[0, 1)\<close> lies in the array.
\<close>

definition generateRandomError :: "real \<Rightarrow> string option \<times> string" where
  "generateRandomError r =
     (let errorKeys = map fst errorCodes;
          i = \<lfloor>r * real (length errorKeys)\<rfloor>;
          randomKey = (if 0 \<le> i \<and> nat i < length errorKeys then Some (errorKeys ! nat i) else None);
          code = (case randomKey of None \<Rightarrow> None | Some k \<Rightarrow> map_of errorCodes k)
      in (code, getErrorMessage code))"

text \<open>
  \<open>generateAuthCode()\<close> is \<open>Math.random().toString(36).substring(2, 8).toUpperCase()\<close>.
  Its argument here is the string \<open>Math.random().toString(36)\<close>; \<open>toUpperCase\<close> is
  modelled on the ASCII letters, the only letters a radix-36 numeral has.
\<close>

definition toUpperCase_char :: "char \<Rightarrow> char" where
  "toUpperCase_char c =
     (let n = (of_char c :: nat) in if 97 \<le> n \<and> n \<le> 122 then char_of (n - 32) else c)"

definition substring :: "string \<Rightarrow> nat \<Rightarrow> nat \<Rightarrow> string" where
  "substring s i j = take (j - i) (drop i s)"

definition generateAuthCode :: "string \<Rightarrow> string" where
  "generateAuthCode radix36 = map toUpperCase_char (substring radix36 2 8)"

text \<open>
  What the bank receives; only the amount and the currency are read (the \<open>cardData\<close>
  property is left out).
\<close>

record bank_payment_data =
  bp_amount :: int
  bp_currency :: string
  bp_terminalId :: string
  bp_paymentId :: string

text \<open>The random and clock values one call of \<open>authorizePayment\<close> consumes.\<close>

record bank_random =
  r_success :: real
  r_transactionId :: string
  r_timestamp :: timestamp
  r_error :: real
  r_radix36 :: string

record auth_result =
  a_success :: bool
  a_transactionId :: string
  a_authCode :: "string option"
  a_amount :: "int option"
  a_currency :: "string option"
  a_errorCode :: "string option"
  a_errorMessage :: "string option"
  a_timestamp :: timestamp
  a_status :: string

definition authorizePayment :: "bankAPI \<Rightarrow> bank_payment_data \<Rightarrow> bank_random \<Rightarrow> auth_result" where
  "authorizePayment b paymentData rnd =
     (let isSuccess = (r_success rnd < successRate b);
          transactionId = r_transactionId rnd;
          timestamp = r_timestamp rnd
      in if isSuccess then
           \<lparr> a_success = True, a_transactionId = transactionId,
             a_authCode = Some (generateAuthCode (r_radix36 rnd)),
             a_amount = Some (bp_amount paymentData),
             a_currency = Some (bp_currency paymentData),
             a_errorCode = None, a_errorMessage = None,
             a_timestamp = timestamp, a_status = ''authorized'' \<rparr>
         else
           (let error = generateRandomError (r_error rnd) in
            \<lparr> a_success = False, a_transactionId = transactionId,
              a_authCode = None, a_amount = None, a_currency = None,
              a_errorCode = fst error, a_errorMessage = Some (snd error),
              a_timestamp = timestamp, a_status = ''declined'' \<rparr>))"

record capture_result =
  c_success :: bool
  c_transactionId :: string
  c_capturedAmount :: "int option"
  c_errorCode :: "string option"
  c_errorMessage :: "string option"
  c_timestamp :: timestamp
  c_status :: string

text \<open>\<open>capturePayment(transactionId, amount = null)\<close>; \<open>r\<close> is \<open>Math.random()\<close>.\<close>

definition capturePayment :: "string \<Rightarrow> int option \<Rightarrow> real \<Rightarrow> timestamp \<Rightarrow> capture_result" where
  "capturePayment transactionId amount r timestamp =
     (let isSuccess = (r < 99 / 100)
      in if isSuccess then
           \<lparr> c_success = True, c_transactionId = transactionId, c_capturedAmount = amount,
             c_errorCode = None, c_errorMessage = None,
             c_timestamp = timestamp, c_status = ''captured'' \<rparr>
         else
           \<lparr> c_success = False, c_transactionId = transactionId, c_capturedAmount = None,
             c_errorCode = Some ''E007'',
             c_errorMessage = Some ''Capture failed - authorization expired'',
             c_timestamp = timestamp, c_status = ''capture_failed'' \<rparr>)"

text \<open>
  The shape of \<open>Math.random().toString(36)\<close> for a value in \<open>[0, 1)\<close>: the numeral \<open>0\<close>, or
  \<open>0.\<close> followed by digits of radix 36.
\<close>

definition is_digit36 :: "char \<Rightarrow> bool" where
  "is_digit36 c = (let n = (of_char c :: nat) in (48 \<le> n \<and> n \<le> 57) \<or> (97 \<le> n \<and> n \<le> 122))"

definition radix36_fraction :: "string \<Rightarrow> bool" where
  "radix36_fraction s = (s = ''0'' \<or> (take 2 s = ''0.'' \<and> list_all is_digit36 (drop 2 s)))"

text \<open>Upper-case alphanumeric: \<open>0-9\<close> or \<open>A-Z\<close>.\<close>

definition is_alnum_upper :: "char \<Rightarrow> bool" where
  "is_alnum_upper c = (let n = (of_char c :: nat) in (48 \<le> n \<and> n \<le> 57) \<or> (65 \<le> n \<and> n \<le> 90))"

section \<open>The server state (server.js)\<close>

text \<open>
  A WebSocket object is known by its identity; its \<open>readyState\<close> (0 connecting, 1 open,
  2 closing, 3 closed) is a mutable property of the object. \<open>this.clients\<close> is a
  JavaScript \<open>Map\<close>, kept as an association list in insertion order because the close
  handler walks its entries in that order.
\<close>

type_synonym conn = nat

record completion_result =
  cr_status :: string
  cr_bankTransactionId :: "string option"
  cr_errorCode :: "string option"

text \<open>The properties a \<open>payment_status\<close> message may carry (time stamps left out).\<close>

record status_msg =
  m_paymentId :: "string option"
  m_status :: string
  m_message :: string
  m_error :: "string option"
  m_errorCode :: "string option"
  m_errorMessage :: "string option"
  m_amount :: "int option"
  m_transactionId :: "string option"
  m_authCode :: "string option"
  m_result :: "completion_result option"

definition status_only :: "string option \<Rightarrow> string \<Rightarrow> string \<Rightarrow> status_msg" where
  "status_only paymentId status message =
     \<lparr> m_paymentId = paymentId, m_status = status, m_message = message, m_error = None,
       m_errorCode = None, m_errorMessage = None, m_amount = None, m_transactionId = None,
       m_authCode = None, m_result = None \<rparr>"

datatype msg =
    Error_msg string "string option"
  | Terminal_config string terminal
  | Payment_request string int string string bool
  | Payment_status status_msg

text \<open>
  What the server does to the outside, in order: a message handed to a socket's \<open>send\<close>,
  a push that \<open>sendToTerminal\<close> dropped (it returned \<open>false\<close>), and the calls of the
  bank's \<open>authorizePayment\<close> and \<open>capturePayment\<close>.
\<close>

datatype event =
    Sent conn msg
  | Not_delivered string msg
  | Bank_authorize bank_payment_data
  | Bank_capture string int

record server =
  terminals :: "string \<rightharpoonup> terminal"
  payments :: "string \<rightharpoonup> payment_row"
  clients :: "(string \<times> conn) list"
  readyState :: "conn \<Rightarrow> nat"
  trace :: "event list"

text \<open>The values of \<open>uuidv4()\<close> and of the clock that one handler run reads.\<close>

record env =
  e_uuid :: string
  e_now :: timestamp

definition ws_send :: "server \<Rightarrow> conn \<Rightarrow> msg \<Rightarrow> server" where
  "ws_send s ws message = s \<lparr> trace := trace s @ [Sent ws message] \<rparr>"

subsection \<open>Payment and Terminal queries against the database\<close>

text \<open>
  \<open>Payment.create\<close>: the parameters are computed first; the \<open>INSERT\<close> is rejected when
  the primary key is taken, and the rejection is thrown to the caller.
\<close>

definition Payment_create :: "server \<Rightarrow> payment_data \<Rightarrow> env \<Rightarrow> exn + payment \<times> server" where
  "Payment_create s paymentData e =
     (let payment = Payment_new paymentData (e_uuid e) (e_now e)
      in case toISOString ''payment.createdAt'' (p_createdAt payment) of
           Inl error \<Rightarrow> Inl error
         | Inr created \<Rightarrow>
             (case completedAt_param ''payment'' payment of
                Inl error \<Rightarrow> Inl error
              | Inr completed \<Rightarrow>
                  if payments s (p_id payment) \<noteq> None then Inl DbError
                  else Inr (payment,
                    s \<lparr> payments := (payments s)(p_id payment \<mapsto>
                                         insert_row payment created completed) \<rparr>)))"

definition Payment_findById :: "server \<Rightarrow> string option \<Rightarrow> env \<Rightarrow> payment option" where
  "Payment_findById s paymentId e =
     (case paymentId of None \<Rightarrow> None
      | Some i \<Rightarrow> (case payments s i of None \<Rightarrow> None
                   | Some row \<Rightarrow> Some (Payment_new (row_data row) (e_uuid e) (e_now e))))"

text \<open>
  \<open>payment.update\<close>: assign the keys to the instance, compute the parameters, then run the
  \<open>UPDATE\<close>. The result holds the exception thrown, if any, the instance as it is
  afterwards (it is changed in place before anything can throw), and the state.
\<close>

definition Payment_update ::
  "server \<Rightarrow> payment \<Rightarrow> update_data \<Rightarrow> exn option \<times> payment \<times> server" where
  "Payment_update s p updateData =
     (let p' = assign p updateData
      in case completedAt_param ''this'' p' of
           Inl error \<Rightarrow> (Some error, p', s)
         | Inr completed \<Rightarrow>
             (None, p',
              case payments s (p_id p') of
                None \<Rightarrow> s
              | Some row \<Rightarrow>
                  s \<lparr> payments := (payments s)(p_id p' \<mapsto> update_row row p' completed) \<rparr>))"

definition Terminal_findById :: "server \<Rightarrow> string \<Rightarrow> terminal option" where
  "Terminal_findById s terminalId =
     (case terminals s terminalId of None \<Rightarrow> None | Some row \<Rightarrow> Some (Terminal_new row))"

subsection \<open>The terminal channel\<close>

definition sendToTerminal :: "server \<Rightarrow> string \<Rightarrow> msg \<Rightarrow> bool \<times> server" where
  "sendToTerminal s terminalId message =
     (case map_of (clients s) terminalId of
        None \<Rightarrow> (False, s \<lparr> trace := trace s @ [Not_delivered terminalId message] \<rparr>)
      | Some client \<Rightarrow>
          if readyState s client = 1 then (True, ws_send s client message)
          else (False, s \<lparr> trace := trace s @ [Not_delivered terminalId message] \<rparr>))"

text \<open>\<open>sendPaymentStatusUpdate\<close>; the message already holds the spread \<open>additionalData\<close>.\<close>

definition sendPaymentStatusUpdate :: "server \<Rightarrow> string \<Rightarrow> status_msg \<Rightarrow> bool \<times> server" where
  "sendPaymentStatusUpdate s terminalId m = sendToTerminal s terminalId (Payment_status m)"

definition getConnectedTerminals :: "server \<Rightarrow> string list" where
  "getConnectedTerminals s = map fst (clients s)"

definition isTerminalConnected :: "server \<Rightarrow> jsval \<Rightarrow> bool" where
  "isTerminalConnected s terminalId =
     (if invalid_terminal_id terminalId then False
      else (case map_of (clients s) (the_string terminalId) of
              None \<Rightarrow> False
            | Some client \<Rightarrow> readyState s client = 1))"

definition handleTerminalReady :: "server \<Rightarrow> conn \<Rightarrow> jsval \<Rightarrow> server" where
  "handleTerminalReady s ws terminalId =
     (if invalid_terminal_id terminalId
      then ws_send s ws (Error_msg ''Valid Terminal ID is required'' None)
      else (case Terminal_findById s (the_string terminalId) of
              None \<Rightarrow> ws_send s ws (Error_msg ''Terminal not found'' None)
            | Some terminal \<Rightarrow>
                ws_send (s \<lparr> clients := AList.update (the_string terminalId) ws (clients s) \<rparr>)
                  ws (Terminal_config (the_string terminalId) terminal)))"

text \<open>
  The \<open>close\<close> listener: the first entry whose client is the closing socket is deleted,
  then the loop breaks.
\<close>

fun first_entry_of :: "(string \<times> conn) list \<Rightarrow> conn \<Rightarrow> string option" where
  "first_entry_of [] ws = None"
| "first_entry_of ((terminalId, client) # es) ws =
     (if client = ws then Some terminalId else first_entry_of es ws)"

definition on_close :: "server \<Rightarrow> conn \<Rightarrow> server" where
  "on_close s ws =
     (case first_entry_of (clients s) ws of
        None \<Rightarrow> s
      | Some terminalId \<Rightarrow> s \<lparr> clients := AList.delete terminalId (clients s) \<rparr>)"

text \<open>
  A socket closing: the \<open>ws\<close> library sets the socket's \<open>readyState\<close> to closed and then
  emits \<open>close\<close>, which runs the listener above.
\<close>

definition ws_close :: "server \<Rightarrow> conn \<Rightarrow> server" where
  "ws_close s ws = on_close (s \<lparr> readyState := (readyState s)(ws := 3) \<rparr>) ws"

subsection \<open>The orchestrator\<close>

text \<open>
  \<open>this.bankAPI\<close> as the orchestrator sees it during one payment: the two calls it
  awaits, each of which returns a result or throws. \<open>TestBank\<close> is the simulator with
  its random draws fixed; any other value stands for a bank that fails.
\<close>

record bank_iface =
  authorize :: "bank_payment_data \<Rightarrow> exn + auth_result"
  capture :: "string \<Rightarrow> int \<Rightarrow> exn + capture_result"

definition TestBank :: "bankAPI \<Rightarrow> bank_random \<Rightarrow> real \<Rightarrow> timestamp \<Rightarrow> bank_iface" where
  "TestBank b rnd r t =
     \<lparr> authorize = (\<lambda>paymentData. Inr (authorizePayment b paymentData rnd)),
       capture = (\<lambda>transactionId amount. Inr (capturePayment transactionId (Some amount) r t)) \<rparr>"

record nfc_data =
  nd_amount :: "int option"
  nd_currency :: "string option"
  nd_cardNumber :: "string option"
  nd_cardType :: "string option"

text \<open>The object \<open>bankPaymentData\<close> that \<open>processNFCPaymentWithBank\<close> builds.\<close>

definition bankPaymentData :: "payment \<Rightarrow> bank_payment_data" where
  "bankPaymentData payment =
     \<lparr> bp_amount = p_amount payment, bp_currency = p_currency payment,
       bp_terminalId = p_terminalId payment, bp_paymentId = p_id payment \<rparr>"

text \<open>
  An awaited \<open>payment.update\<close> followed by the rest of a block: when the update throws,
  the rest is skipped and the exception goes on to the enclosing \<open>catch\<close>.
\<close>

definition update_then ::
  "exn option \<times> payment \<times> server \<Rightarrow> (payment \<Rightarrow> server \<Rightarrow> exn option \<times> payment \<times> server)
     \<Rightarrow> exn option \<times> payment \<times> server" where
  "update_then updated rest =
     (case updated of
        (Some error, p, s) \<Rightarrow> (Some error, p, s)
      | (None, p, s) \<Rightarrow> rest p s)"

text \<open>
  The \<open>try\<close> block of \<open>processNFCPaymentWithBank\<close>. It yields the exception thrown inside
  it, if any, together with the payment instance and the state reached at that point.
  Reading a property of an undefined \<open>nfcData\<close> is the first thing that can throw.
\<close>

definition bank_cycle ::
  "server \<Rightarrow> bank_iface \<Rightarrow> timestamp \<Rightarrow> string \<Rightarrow> payment \<Rightarrow> nfc_data option
     \<Rightarrow> exn option \<times> payment \<times> server" where
  "bank_cycle s bank now terminalId payment nfcData =
     (case nfcData of
        None \<Rightarrow> (Some (TypeError ''Cannot read properties of undefined (reading 'cardNumber')''),
                 payment, s)
      | Some nd \<Rightarrow>
         (let s1 = s \<lparr> trace := trace s @ [Bank_authorize (bankPaymentData payment)] \<rparr>
          in case authorize bank (bankPaymentData payment) of
               Inl error \<Rightarrow> (Some error, payment, s1)
             | Inr authResult \<Rightarrow>
                 if a_success authResult then
                   update_then
                     (Payment_update s1 payment
                        (no_update \<lparr> u_bankTransactionId := Some (Some (a_transactionId authResult)),
                                     u_status := Some ''authorized'' \<rparr>))
                     (\<lambda>p2 s2.
                        let s3 = s2 \<lparr> trace := trace s2 @
                                   [Bank_capture (a_transactionId authResult) (p_amount p2)] \<rparr>
                        in case capture bank (a_transactionId authResult) (p_amount p2) of
                             Inl error \<Rightarrow> (Some error, p2, s3)
                           | Inr captureResult \<Rightarrow>
                               if c_success captureResult then
                                 update_then
                                   (Payment_update s3 p2
                                      (no_update \<lparr> u_status := Some ''completed'',
                                                   u_completedAt := Some now \<rparr>))
                                   (\<lambda>p4 s4. (None, p4, snd (sendPaymentStatusUpdate s4 terminalId
                                      ((status_only (Some (p_id p4)) ''completed'' ''Payment successful'')
                                         \<lparr> m_amount := Some (p_amount p4),
                                           m_transactionId := Some (a_transactionId authResult),
                                           m_authCode := a_authCode authResult \<rparr>))))
                               else
                                 update_then
                                   (Payment_update s3 p2
                                      (no_update \<lparr> u_status := Some ''failed'',
                                                   u_errorCode := Some (c_errorCode captureResult) \<rparr>))
                                   (\<lambda>p4 s4. (None, p4, snd (sendPaymentStatusUpdate s4 terminalId
                                      ((status_only (Some (p_id p4)) ''failed'' ''Payment capture failed'')
                                         \<lparr> m_errorCode := c_errorCode captureResult,
                                           m_errorMessage := c_errorMessage captureResult \<rparr>)))))
                 else
                   update_then
                     (Payment_update s1 payment
                        (no_update \<lparr> u_status := Some ''failed'',
                                     u_errorCode := Some (a_errorCode authResult),
                                     u_bankTransactionId := Some (Some (a_transactionId authResult)) \<rparr>))
                     (\<lambda>p2 s2. (None, p2, snd (sendPaymentStatusUpdate s2 terminalId
                        ((status_only (Some (p_id p2)) ''failed'' ''Payment authorization failed'')
                           \<lparr> m_errorCode := a_errorCode authResult,
                             m_errorMessage := a_errorMessage authResult \<rparr>))))))"

text \<open>
  \<open>processNFCPaymentWithBank\<close>: the \<open>try\<close> block and its \<open>catch\<close>. The first component
  of the result is the exception that leaves the function: the one thrown inside the
  \<open>catch\<close> block, by its \<open>payment.update\<close>, if any.
\<close>

definition processNFCPaymentWithBank ::
  "server \<Rightarrow> bank_iface \<Rightarrow> timestamp \<Rightarrow> string \<Rightarrow> payment \<Rightarrow> nfc_data option
     \<Rightarrow> exn option \<times> server" where
  "processNFCPaymentWithBank s bank now terminalId payment nfcData =
     (case bank_cycle s bank now terminalId payment nfcData of
        (None, p, s') \<Rightarrow> (None, s')
      | (Some error, p, s') \<Rightarrow>
          (case Payment_update s' p
                  (no_update \<lparr> u_status := Some ''failed'', u_errorCode := Some (Some ''E003'') \<rparr>) of
             (Some error2, p2, s2) \<Rightarrow> (Some error2, s2)
           | (None, p2, s2) \<Rightarrow>
               (None, snd (sendPaymentStatusUpdate s2 terminalId
                  ((status_only (Some (p_id p2)) ''failed'' ''Bank communication error'')
                     \<lparr> m_errorCode := Some ''E003'',
                       m_errorMessage := Some ''Network connection error'' \<rparr>)))))"

record nfc_event =
  n_terminalId :: jsval
  n_paymentId :: "string option"
  n_nfcData :: "nfc_data option"

text \<open>The object \<open>paymentData\<close> from which \<open>handleNFCDetected\<close> creates a new record.\<close>

definition nfc_paymentData :: "string \<Rightarrow> nfc_data \<Rightarrow> payment_data" where
  "nfc_paymentData terminalId nd =
     no_data \<lparr> d_terminalId := Some terminalId,
               d_amount := Some (or_int (nd_amount nd) 1000),
               d_currency := Some (or_str (nd_currency nd) ''RUB''),
               d_method := Some ''nfc'',
               d_status := Some ''processing'' \<rparr>"

text \<open>The \<open>try\<close> block of \<open>handleNFCDetected\<close>, with the exception it throws, if any.\<close>

definition nfc_detected_body ::
  "server \<Rightarrow> bank_iface \<Rightarrow> env \<Rightarrow> timestamp \<Rightarrow> conn \<Rightarrow> nfc_event \<Rightarrow> exn option \<times> server" where
  "nfc_detected_body s bank e later ws data =
     (let terminalId = the_string (n_terminalId data);
          continue = (\<lambda>payment s1.
            processNFCPaymentWithBank
              (ws_send s1 ws (Payment_status
                 (status_only (Some (p_id payment)) ''processing'' ''Processing NFC payment'')))
              bank later terminalId payment (n_nfcData data))
      in if truthy_str (n_paymentId data) then
           (case Payment_findById s (n_paymentId data) e of
              None \<Rightarrow> (None, ws_send s ws (Error_msg ''Payment not found'' None))
            | Some payment \<Rightarrow>
                (case Payment_update s payment
                        (no_update \<lparr> u_method := Some ''nfc'', u_status := Some ''processing'' \<rparr>) of
                   (Some error, p1, s1) \<Rightarrow> (Some error, s1)
                 | (None, p1, s1) \<Rightarrow> continue p1 s1))
         else
           (case n_nfcData data of
              None \<Rightarrow> (Some (TypeError ''Cannot read properties of undefined (reading 'amount')''), s)
            | Some nd \<Rightarrow>
                (case Payment_create s (nfc_paymentData terminalId nd) e of
                   Inl error \<Rightarrow> (Some error, s)
                 | Inr (payment, s1) \<Rightarrow> continue payment s1)))"

text \<open>
  \<open>handleNFCDetected\<close>; \<open>e\<close> holds the clock at entry and \<open>later\<close> is the clock once
  the bank has answered.
\<close>

definition handleNFCDetected ::
  "server \<Rightarrow> bank_iface \<Rightarrow> env \<Rightarrow> timestamp \<Rightarrow> conn \<Rightarrow> nfc_event \<Rightarrow> server" where
  "handleNFCDetected s bank e later ws data =
     (if invalid_terminal_id (n_terminalId data)
      then ws_send s ws (Error_msg ''Valid Terminal ID is required'' None)
      else if map_of (clients s) (the_string (n_terminalId data)) = None
      then ws_send s ws (Error_msg ''Terminal not registered'' None)
      else (case nfc_detected_body s bank e later ws data of
              (None, s') \<Rightarrow> s'
            | (Some error, s') \<Rightarrow>
                ws_send s' ws (Payment_status
                  ((status_only None ''failed'' ''Failed to process NFC payment'')
                     \<lparr> m_error := Some (exn_message error) \<rparr>))))"

record completed_event =
  ce_terminalId :: jsval
  ce_paymentId :: "string option"
  ce_result :: "completion_result option"

definition handlePaymentCompleted :: "server \<Rightarrow> env \<Rightarrow> conn \<Rightarrow> completed_event \<Rightarrow> server" where
  "handlePaymentCompleted s e ws data =
     (if invalid_terminal_id (ce_terminalId data)
      then ws_send s ws (Error_msg ''Valid Terminal ID is required'' None)
      else (case Payment_findById s (ce_paymentId data) e of
              None \<Rightarrow> ws_send s ws (Error_msg ''Payment not found'' None)
            | Some payment \<Rightarrow>
                (case ce_result data of
                   None \<Rightarrow> ws_send s ws (Error_msg ''Failed to update payment status''
                             (Some ''Cannot read properties of undefined (reading 'status')''))
                 | Some result \<Rightarrow>
                     (let updateData =
                            no_update \<lparr> u_status := Some (cr_status result),
                                        u_completedAt := Some (e_now e),
                                        u_bankTransactionId :=
                                          (if truthy_str (cr_bankTransactionId result)
                                           then Some (cr_bankTransactionId result) else None),
                                        u_errorCode :=
                                          (if truthy_str (cr_errorCode result)
                                           then Some (cr_errorCode result) else None) \<rparr>
                      in case Payment_update s payment updateData of
                           (Some error, p1, s1) \<Rightarrow>
                             ws_send s1 ws (Error_msg ''Failed to update payment status''
                                              (Some (exn_message error)))
                         | (None, p1, s1) \<Rightarrow>
                             ws_send s1 ws (Payment_status
                               ((status_only (ce_paymentId data) (cr_status result)
                                   (if cr_status result = ''completed'' then ''Payment confirmed''
                                    else ''Payment failed''))
                                  \<lparr> m_result := Some result \<rparr>))))))"

record payment_request =
  q_amount :: "int option"
  q_currency :: "string option"
  q_method :: "string option"
  q_testPayment :: "bool option"

text \<open>
  \<open>sendPaymentRequest\<close>: the value returned or the exception thrown, and the state left
  behind in either case.
\<close>

definition sendPaymentRequest ::
  "server \<Rightarrow> env \<Rightarrow> jsval \<Rightarrow> payment_request \<Rightarrow> (exn + payment) \<times> server" where
  "sendPaymentRequest s e terminalId paymentData =
     (if invalid_terminal_id terminalId
      then (Inl (Error ''Valid Terminal ID is required''), s)
      else (case Payment_create s
                    (no_data \<lparr> d_terminalId := Some (the_string terminalId),
                               d_amount := q_amount paymentData,
                               d_currency := Some (or_str (q_currency paymentData) ''RUB''),
                               d_method := Some (or_str (q_method paymentData) ''nfc''),
                               d_status := Some ''pending'' \<rparr>) e of
              Inl error \<Rightarrow> (Inl error, s)
            | Inr (payment, s1) \<Rightarrow>
                (let (success, s2) = sendToTerminal s1 (the_string terminalId)
                       (Payment_request (p_id payment) (p_amount payment) (p_currency payment)
                          (p_method payment)
                          (case q_testPayment paymentData of None \<Rightarrow> False | Some b \<Rightarrow> b))
                 in if \<not> success then
                      (case Payment_update s2 payment
                              (no_update \<lparr> u_status := Some ''failed'',
                                           u_errorCode := Some (Some ''TERMINAL_OFFLINE'') \<rparr>) of
                         (Some error, p3, s3) \<Rightarrow> (Inl error, s3)
                       | (None, p3, s3) \<Rightarrow> (Inl (Error ''Terminal not connected''), s3))
                    else (Inr payment, s2))))"

subsection \<open>The two HTTP routes that call \<open>sendPaymentRequest\<close> (routes/terminals.js)\<close>

datatype http_response = Http nat string "payment option"

text \<open>\<open>POST /api/terminals/:id/payment-request\<close>; the id is a path segment, a string.\<close>

definition post_payment_request ::
  "server \<Rightarrow> env \<Rightarrow> string \<Rightarrow> payment_request \<Rightarrow> http_response \<times> server" where
  "post_payment_request s e terminalId body =
     (if (case q_amount body of None \<Rightarrow> True | Some amount \<Rightarrow> amount = 0 \<or> amount \<le> 0)
      then (Http 400 ''Valid amount is required'' None, s)
      else if terminals s terminalId = None
      then (Http 404 ''Terminal not found'' None, s)
      else if \<not> isTerminalConnected s (JStr terminalId)
      then (Http 400 ''Terminal is not connected'' None, s)
      else (case sendPaymentRequest s e (JStr terminalId)
                    \<lparr> q_amount = q_amount body,
                      q_currency = Some (or_str (q_currency body) ''RUB''),
                      q_method = Some (or_str (q_method body) ''nfc''),
                      q_testPayment = Some False \<rparr> of
              (Inl error, s') \<Rightarrow> (Http 500 (exn_message error) None, s')
            | (Inr payment, s') \<Rightarrow>
                (Http 201 ''Payment request sent successfully'' (Some payment), s')))"

text \<open>
  \<open>POST /api/terminals/:id/activate\<close>; the destructuring defaults
  \<open>{ amount = 1000, currency = 'RUB', method = 'nfc' }\<close> apply to missing properties only.
\<close>

definition post_activate ::
  "server \<Rightarrow> env \<Rightarrow> string \<Rightarrow> payment_request \<Rightarrow> http_response \<times> server" where
  "post_activate s e terminalId body =
     (if terminals s terminalId = None
      then (Http 404 ''Terminal not found'' None, s)
      else if \<not> isTerminalConnected s (JStr terminalId)
      then (Http 400 ''Terminal is not connected'' None, s)
      else (case sendPaymentRequest s e (JStr terminalId)
                    \<lparr> q_amount = Some (case q_amount body of None \<Rightarrow> 1000 | Some amount \<Rightarrow> amount),
                      q_currency = Some (case q_currency body of None \<Rightarrow> ''RUB'' | Some c \<Rightarrow> c),
                      q_method = Some (case q_method body of None \<Rightarrow> ''nfc'' | Some m \<Rightarrow> m),
                      q_testPayment = Some False \<rparr> of
              (Inl error, s') \<Rightarrow> (Http 500 (exn_message error) None, s')
            | (Inr payment, s') \<Rightarrow>
                (Http 200 ''Terminal activated successfully'' (Some payment), s')))"

section \<open>Notions used to state the properties\<close>

text \<open>
  The event that a call of \<open>sendToTerminal\<close> adds to the trace: the message handed to the
  open socket registered for the terminal, or the record that it was dropped.
\<close>

definition pushed :: "server \<Rightarrow> string \<Rightarrow> msg \<Rightarrow> event" where
  "pushed s terminalId message =
     (case map_of (clients s) terminalId of
        None \<Rightarrow> Not_delivered terminalId message
      | Some client \<Rightarrow> if readyState s client = 1 then Sent client message
                       else Not_delivered terminalId message)"

text \<open>The \<open>failed\<close> status message that carries an error code and its text.\<close>

definition failed_status :: "string \<Rightarrow> string \<Rightarrow> string option \<Rightarrow> string option \<Rightarrow> msg" where
  "failed_status paymentId message code text =
     Payment_status ((status_only (Some paymentId) ''failed'' message)
                       \<lparr> m_errorCode := code, m_errorMessage := text \<rparr>)"

section \<open>Example states\<close>

text \<open>
  A server that knows terminal \<open>T1\<close>, with no payment stored, no terminal registered and
  every socket open; the same server after socket 1 has registered as \<open>T1\<close>; and after
  socket 2 has then registered as \<open>T1\<close> too.
\<close>

definition example_terminal :: terminal where
  "example_terminal =
     \<lparr> t_name = ''Kiosk'', t_operator = ''Operator'', t_status = ''active'', t_location = ''Hall'' \<rparr>"

definition example_server :: server where
  "example_server =
     \<lparr> terminals = [''T1'' \<mapsto> example_terminal], payments = Map.empty, clients = [],
       readyState = (\<lambda>ws. 1), trace = [] \<rparr>"

definition example_connected :: server where
  "example_connected = handleTerminalReady example_server 1 (JStr ''T1'')"

definition example_replaced :: server where
  "example_replaced = handleTerminalReady example_connected 2 (JStr ''T1'')"

definition example_env :: env where
  "example_env = \<lparr> e_uuid = ''p-1'', e_now = 100 \<rparr>"

definition example_random :: bank_random where
  "example_random =
     \<lparr> r_success = 1 / 2, r_transactionId = ''tx-1'', r_timestamp = 7, r_error = 1 / 2,
       r_radix36 = ''0.4fzyo82mvyr'' \<rparr>"

definition example_bank_payment :: bank_payment_data where
  "example_bank_payment =
     \<lparr> bp_amount = 10000, bp_currency = ''RUB'', bp_terminalId = ''T1'', bp_paymentId = ''p-1'' \<rparr>"

definition example_request :: payment_request where
  "example_request =
     \<lparr> q_amount = Some 10000, q_currency = Some ''RUB'', q_method = Some ''nfc'',
       q_testPayment = None \<rparr>"

text \<open>
  A session of terminal \<open>T1\<close> that has completed, stored in the server to which socket 1
  is registered as \<open>T1\<close>; and a \<open>payment_completed\<close> event for it that reports failure.
\<close>

definition example_payment :: payment_row where
  "example_payment =
     \<lparr> r_id = ''p-1'', r_terminalId = ''T1'', r_amount = 10000, r_currency = ''RUB'',
       r_method = ''nfc'', r_status = ''completed'', r_bankTransactionId = Some ''tx-0'',
       r_errorCode = None, r_createdAt = 50, r_completedAt = Some 60 \<rparr>"

definition example_completed :: server where
  "example_completed = example_connected \<lparr> payments := [''p-1'' \<mapsto> example_payment] \<rparr>"

definition example_failure :: completion_result where
  "example_failure =
     \<lparr> cr_status = ''failed'', cr_bankTransactionId = None, cr_errorCode = Some ''E006'' \<rparr>"

definition example_completion :: completed_event where
  "example_completion =
     \<lparr> ce_terminalId = JStr ''T1'', ce_paymentId = Some ''p-1'', ce_result = Some example_failure \<rparr>"

definition example_nfc_data :: nfc_data where
  "example_nfc_data =
     \<lparr> nd_amount = Some 10000, nd_currency = Some ''RUB'', nd_cardNumber = None,
       nd_cardType = None \<rparr>"

text \<open>
  The simulator with its default configuration, and the simulator set to decline every
  authorization, each with the draws of \<open>example_random\<close>.
\<close>

definition example_bank :: bank_iface where
  "example_bank = TestBank (TestBankAPI_new None None) example_random (1 / 2) 8"

definition example_declining_bank :: bank_iface where
  "example_declining_bank =
     TestBank (setSuccessRate (TestBankAPI_new None None) 0) example_random (1 / 2) 8"

text \<open>
  A bank whose every call throws; a \<open>nfc_detected\<close> event of terminal \<open>T1\<close> that starts a
  new session; and a session of \<open>T1\<close> that is being processed, as a row and as an
  instance, with the server that stores it.
\<close>

definition example_failing_bank :: bank_iface where
  "example_failing_bank =
     \<lparr> authorize = (\<lambda>paymentData. Inl (BankError ''ETIMEDOUT'')),
       capture = (\<lambda>transactionId amount. Inl (BankError ''ETIMEDOUT'')) \<rparr>"

definition example_detection :: nfc_event where
  "example_detection =
     \<lparr> n_terminalId = JStr ''T1'', n_paymentId = None, n_nfcData = Some example_nfc_data \<rparr>"

definition example_processing_row :: payment_row where
  "example_processing_row =
     example_payment \<lparr> r_status := ''processing'', r_bankTransactionId := None,
                       r_completedAt := None \<rparr>"

definition example_processing_payment :: payment where
  "example_processing_payment = Payment_new (row_data example_processing_row) ''u-1'' 150"

definition example_processing :: server where
  "example_processing =
     example_connected \<lparr> payments := [''p-1'' \<mapsto> example_processing_row] \<rparr>"

text \<open>
  The simulator constructed with the option \<open>successRate: 0\<close>, and a request body whose
  amount is negative.
\<close>

definition example_zero_option_bank :: bank_iface where
  "example_zero_option_bank = TestBank (TestBankAPI_new (Some 0) None) example_random (1 / 2) 8"

definition example_negative_request :: payment_request where
  "example_negative_request =
     \<lparr> q_amount = Some (- 5), q_currency = None, q_method = None, q_testPayment = None \<rparr>"

text \<open>
  A session of \<open>T1\<close> that the bank declined, stored without completion time, and a tap
  that names it; a tap that names the completed session of \<open>example_completed\<close>.
\<close>

definition example_declined_row :: payment_row where
  "example_declined_row =
     example_payment \<lparr> r_status := ''failed'', r_bankTransactionId := Some ''tx-0'',
                       r_errorCode := Some ''E006'', r_completedAt := None \<rparr>"

definition example_declined :: server where
  "example_declined = example_connected \<lparr> payments := [''p-1'' \<mapsto> example_declined_row] \<rparr>"

definition example_second_tap :: nfc_event where
  "example_second_tap =
     \<lparr> n_terminalId = JStr ''T1'', n_paymentId = Some ''p-1'', n_nfcData = Some example_nfc_data \<rparr>"

section \<open>Properties\<close>

subsection \<open>Helper facts\<close>

lemma example_valid: "\<not> invalid_terminal_id (JStr ''T1'')"
  by (simp add: invalid_terminal_id_def trim_def is_ws_def)

lemma first_entry_of_Some:
  "distinct (map fst es) \<Longrightarrow> first_entry_of es ws = Some t \<Longrightarrow> map_of es t = Some ws"
  by (induction es ws rule: first_entry_of.induct) (force split: if_splits)+

lemma first_entry_of_None:
  "first_entry_of es ws = None \<Longrightarrow> map_of es t \<noteq> Some ws"
  by (induction es ws rule: first_entry_of.induct) (auto split: if_splits)

lemma on_close_only_own:
  assumes "distinct (map fst (clients s))" and "map_of (clients s) t = Some c" and "c \<noteq> ws"
  shows "map_of (clients (on_close s ws)) t = Some c"
proof (cases "first_entry_of (clients s) ws")
  case None
  then show ?thesis using assms by (simp add: on_close_def)
next
  case (Some t')
  have "map_of (clients s) t' = Some ws"
    using Some assms(1) by (simp add: first_entry_of_Some)
  then have "t' \<noteq> t" using assms(2,3) by auto
  with Some assms show ?thesis
    by (simp add: on_close_def delete_conv')
qed

lemma on_close_subset:
  "map_of (clients (on_close s ws)) t = Some c \<Longrightarrow> map_of (clients s) t = Some c"
  by (auto simp: on_close_def delete_conv' split: option.splits if_splits)

lemma on_close_readyState: "readyState (on_close s ws) = readyState s"
  by (simp add: on_close_def split: option.splits)

lemma on_close_removes:
  assumes "distinct (map fst (clients s))" and "map_of (clients s) t = Some ws"
    and "\<forall>t'. t' \<noteq> t \<longrightarrow> map_of (clients s) t' \<noteq> Some ws"
  shows "map_of (clients (on_close s ws)) t = None"
proof (cases "first_entry_of (clients s) ws")
  case None
  then show ?thesis using assms(2) first_entry_of_None by fastforce
next
  case (Some t')
  have "map_of (clients s) t' = Some ws"
    using Some assms(1) by (simp add: first_entry_of_Some)
  then have "t' = t" using assms(3) by blast
  with Some show ?thesis by (simp add: on_close_def delete_conv')
qed

lemma trim_empty_iff: "trim s = [] \<longleftrightarrow> list_all is_ws s"
proof -
  have "(\<forall>x\<in>set (dropWhile is_ws s). is_ws x) \<longleftrightarrow> dropWhile is_ws s = []"
  proof
    assume a: "\<forall>x\<in>set (dropWhile is_ws s). is_ws x"
    show "dropWhile is_ws s = []"
    proof (rule ccontr)
      assume n: "dropWhile is_ws s \<noteq> []"
      then have "\<not> is_ws (hd (dropWhile is_ws s))" by (rule hd_dropWhile)
      moreover have "hd (dropWhile is_ws s) \<in> set (dropWhile is_ws s)" using n by simp
      ultimately show False using a by blast
    qed
  qed (auto dest: set_dropWhileD)
  then show ?thesis
    by (simp add: trim_def list_all_iff dropWhile_eq_Nil_conv)
qed
lemma generateRandomError_cases:
  assumes "0 \<le> r" and "r < 1"
  shows "generateRandomError r \<in> set (map (\<lambda>(c, m). (Some c, m)) messages)"
proof -
  have "0 \<le> \<lfloor>r * 6\<rfloor> \<and> \<lfloor>r * 6\<rfloor> < 6"
    using assms by (simp add: floor_less_iff)
  then have "\<lfloor>r * 6\<rfloor> = 0 \<or> \<lfloor>r * 6\<rfloor> = 1 \<or> \<lfloor>r * 6\<rfloor> = 2 \<or>
             \<lfloor>r * 6\<rfloor> = 3 \<or> \<lfloor>r * 6\<rfloor> = 4 \<or> \<lfloor>r * 6\<rfloor> = 5"
    by linarith
  then show ?thesis
    using assms(1)
    by (elim disjE)
       (simp_all add: generateRandomError_def errorCodes_def messages_def getErrorMessage_def
        or_str_def Let_def)
qed

lemma upper_alnum: "is_digit36 c \<Longrightarrow> is_alnum_upper (toUpperCase_char c)"
  unfolding is_digit36_def is_alnum_upper_def toUpperCase_char_def Let_def
  by auto

lemma authcode_alnum:
  assumes "radix36_fraction s"
  shows "list_all is_alnum_upper (generateAuthCode s)"
proof -
  have "list_all is_digit36 (drop 2 s)"
    using assms by (auto simp: radix36_fraction_def)
  then have "list_all is_digit36 (take 6 (drop 2 s))"
    by (auto simp: list_all_iff dest: in_set_takeD)
  then show ?thesis
    by (simp add: generateAuthCode_def substring_def list_all_iff upper_alnum)
qed

lemma example_authcode: "generateAuthCode (r_radix36 example_random) = ''4FZYO8''"
  unfolding example_random_def by code_simp

lemma assign_id [simp]: "p_id (assign p u) = p_id p"
  by (simp add: assign_def)

lemma assign_amount [simp]: "p_amount (assign p u) = p_amount p"
  by (simp add: assign_def)

lemma assign_completedAt:
  "p_completedAt (assign p u) =
     (case u_completedAt u of None \<Rightarrow> p_completedAt p | Some v \<Rightarrow> Some (Date v))"
  by (simp add: assign_def)

lemma update_row_fields [simp]:
  "r_status (update_row row p c) = p_status p"
  "r_errorCode (update_row row p c) = p_errorCode p"
  "r_bankTransactionId (update_row row p c) = p_bankTransactionId p"
  "r_completedAt (update_row row p c) = c"
  "r_amount (update_row row p c) = p_amount p"
  "r_id (update_row row p c) = r_id row"
  "r_createdAt (update_row row p c) = r_createdAt row"
  "update_row (update_row row q c') p c = update_row row p c"
  by (simp_all add: update_row_def)

text \<open>
  An instance without completion time can be written, with or without a new completion
  time; an instance whose completion time is an ISO string cannot, unless a new one is
  assigned.
\<close>

lemma completedAt_param_simps:
  "p_completedAt p = None \<Longrightarrow> u_completedAt u = None \<Longrightarrow>
     completedAt_param object (assign p u) = Inr None"
  "u_completedAt u = Some v \<Longrightarrow> completedAt_param object (assign p u) = Inr (Some v)"
  "p_completedAt p = Some (Iso t) \<Longrightarrow> u_completedAt u = None \<Longrightarrow>
     completedAt_param ''this'' (assign p u) =
       Inl (TypeError ''this.completedAt.toISOString is not a function'')"
  by (simp_all add: completedAt_param_def assign_completedAt)

lemma Payment_update_stored:
  "payments s (p_id p) = Some row \<Longrightarrow> completedAt_param ''this'' (assign p u) = Inr c \<Longrightarrow>
   Payment_update s p u =
     (None, assign p u, s \<lparr> payments := (payments s)(p_id p \<mapsto> update_row row (assign p u) c) \<rparr>)"
  by (simp add: Payment_update_def Let_def)

lemma no_update_simps [simp]:
  "u_completedAt no_update = None"
  "u_completedAt (no_update \<lparr> u_status := a \<rparr>) = None"
  "u_completedAt (no_update \<lparr> u_status := a, u_errorCode := b \<rparr>) = None"
  "u_completedAt (no_update \<lparr> u_status := a, u_errorCode := b, u_bankTransactionId := c \<rparr>) = None"
  "u_completedAt (no_update \<lparr> u_bankTransactionId := c, u_status := a \<rparr>) = None"
  "u_completedAt (no_update \<lparr> u_method := d, u_status := a \<rparr>) = None"
  "u_completedAt (no_update \<lparr> u_status := a, u_completedAt := Some now \<rparr>) = Some now"
  by (simp_all add: no_update_def)

lemma sendToTerminal_eq:
  "sendToTerminal s t m =
     (pushed s t m \<noteq> Not_delivered t m, s \<lparr> trace := trace s @ [pushed s t m] \<rparr>)"
  by (simp add: sendToTerminal_def pushed_def ws_send_def split: option.splits)

lemma pushed_cong [simp]:
  "pushed (s \<lparr> payments := ps \<rparr>) t m = pushed s t m"
  "pushed (s \<lparr> trace := tr \<rparr>) t m = pushed s t m"
  by (simp_all add: pushed_def split: option.splits)

text \<open>The five ways through the bank cycle, each with the state it leaves.\<close>

lemma process_auth_throws:
  assumes "payments s (p_id p) = Some row" and "p_completedAt p = None"
    and "authorize bank (bankPaymentData p) = Inl err"
  shows "processNFCPaymentWithBank s bank now tid p (Some nd) =
     (None, s \<lparr> payments := (payments s)(p_id p \<mapsto> update_row row (assign p
                 (no_update \<lparr> u_status := Some ''failed'', u_errorCode := Some (Some ''E003'') \<rparr>)) None),
               trace := trace s @ [Bank_authorize (bankPaymentData p),
                 pushed s tid (failed_status (p_id p) ''Bank communication error''
                   (Some ''E003'') (Some ''Network connection error''))] \<rparr>)"
  using assms
  by (simp add: processNFCPaymentWithBank_def bank_cycle_def update_then_def
      Payment_update_stored completedAt_param_simps assign_completedAt
      sendPaymentStatusUpdate_def sendToTerminal_eq failed_status_def Let_def)

lemma process_auth_declined:
  assumes "payments s (p_id p) = Some row" and "p_completedAt p = None"
    and "authorize bank (bankPaymentData p) = Inr ar"
    and "\<not> a_success ar"
  shows "processNFCPaymentWithBank s bank now tid p (Some nd) =
     (None, s \<lparr> payments := (payments s)(p_id p \<mapsto> update_row row (assign p
                 (no_update \<lparr> u_status := Some ''failed'', u_errorCode := Some (a_errorCode ar),
                    u_bankTransactionId := Some (Some (a_transactionId ar)) \<rparr>)) None),
               trace := trace s @ [Bank_authorize (bankPaymentData p),
                 pushed s tid (failed_status (p_id p) ''Payment authorization failed''
                   (a_errorCode ar) (a_errorMessage ar))] \<rparr>)"
  using assms
  by (simp add: processNFCPaymentWithBank_def bank_cycle_def update_then_def
      Payment_update_stored completedAt_param_simps assign_completedAt
      sendPaymentStatusUpdate_def sendToTerminal_eq failed_status_def Let_def)

lemma process_capture_throws:
  assumes "payments s (p_id p) = Some row" and "p_completedAt p = None"
    and "authorize bank (bankPaymentData p) = Inr ar"
    and "a_success ar" and "capture bank (a_transactionId ar) (p_amount p) = Inl err"
  shows "processNFCPaymentWithBank s bank now tid p (Some nd) =
     (None, s \<lparr> payments := (payments s)(p_id p \<mapsto> update_row row (assign (assign p
                 (no_update \<lparr> u_bankTransactionId := Some (Some (a_transactionId ar)),
                    u_status := Some ''authorized'' \<rparr>))
                 (no_update \<lparr> u_status := Some ''failed'', u_errorCode := Some (Some ''E003'') \<rparr>)) None),
               trace := trace s @ [Bank_authorize (bankPaymentData p),
                 Bank_capture (a_transactionId ar) (p_amount p),
                 pushed s tid (failed_status (p_id p) ''Bank communication error''
                   (Some ''E003'') (Some ''Network connection error''))] \<rparr>)"
  using assms
  by (simp add: processNFCPaymentWithBank_def bank_cycle_def update_then_def
      Payment_update_stored completedAt_param_simps assign_completedAt
      sendPaymentStatusUpdate_def sendToTerminal_eq failed_status_def Let_def)

lemma process_capture_declined:
  assumes "payments s (p_id p) = Some row" and "p_completedAt p = None"
    and "authorize bank (bankPaymentData p) = Inr ar"
    and "a_success ar" and "capture bank (a_transactionId ar) (p_amount p) = Inr cr"
    and "\<not> c_success cr"
  shows "processNFCPaymentWithBank s bank now tid p (Some nd) =
     (None, s \<lparr> payments := (payments s)(p_id p \<mapsto> update_row row (assign (assign p
                 (no_update \<lparr> u_bankTransactionId := Some (Some (a_transactionId ar)),
                    u_status := Some ''authorized'' \<rparr>))
                 (no_update \<lparr> u_status := Some ''failed'', u_errorCode := Some (c_errorCode cr) \<rparr>)) None),
               trace := trace s @ [Bank_authorize (bankPaymentData p),
                 Bank_capture (a_transactionId ar) (p_amount p),
                 pushed s tid (failed_status (p_id p) ''Payment capture failed''
                   (c_errorCode cr) (c_errorMessage cr))] \<rparr>)"
  using assms
  by (simp add: processNFCPaymentWithBank_def bank_cycle_def update_then_def
      Payment_update_stored completedAt_param_simps assign_completedAt
      sendPaymentStatusUpdate_def sendToTerminal_eq failed_status_def Let_def)

lemma process_captured:
  assumes "payments s (p_id p) = Some row" and "p_completedAt p = None"
    and "authorize bank (bankPaymentData p) = Inr ar"
    and "a_success ar" and "capture bank (a_transactionId ar) (p_amount p) = Inr cr"
    and "c_success cr"
  shows "processNFCPaymentWithBank s bank now tid p (Some nd) =
     (None, s \<lparr> payments := (payments s)(p_id p \<mapsto> update_row row (assign (assign p
                 (no_update \<lparr> u_bankTransactionId := Some (Some (a_transactionId ar)),
                    u_status := Some ''authorized'' \<rparr>))
                 (no_update \<lparr> u_status := Some ''completed'', u_completedAt := Some now \<rparr>)) (Some now)),
               trace := trace s @ [Bank_authorize (bankPaymentData p),
                 Bank_capture (a_transactionId ar) (p_amount p),
                 pushed s tid (Payment_status
                   ((status_only (Some (p_id p)) ''completed'' ''Payment successful'')
                      \<lparr> m_amount := Some (p_amount p),
                        m_transactionId := Some (a_transactionId ar),
                        m_authCode := a_authCode ar \<rparr>))] \<rparr>)"
  using assms
  by (simp add: processNFCPaymentWithBank_def bank_cycle_def update_then_def
      Payment_update_stored completedAt_param_simps assign_completedAt
      sendPaymentStatusUpdate_def sendToTerminal_eq Let_def)

lemma process_no_exception:
  assumes "p_completedAt p = None"
  shows "fst (processNFCPaymentWithBank s bank now tid p nfcData) = None"
proof -
  have u: "\<And>s' q u. p_completedAt q = None \<Longrightarrow> u_completedAt u = None \<Longrightarrow>
      fst (Payment_update s' q u) = None \<and> p_completedAt (fst (snd (Payment_update s' q u))) = None"
    by (simp add: Payment_update_def completedAt_param_simps assign_completedAt Let_def)
  have v: "\<And>s' q u t. u_completedAt u = Some t \<Longrightarrow> fst (Payment_update s' q u) = None"
    by (simp add: Payment_update_def completedAt_param_simps Let_def)
  have cyc: "fst (bank_cycle s bank now tid p nfcData) = None \<or>
      p_completedAt (fst (snd (bank_cycle s bank now tid p nfcData))) = None"
  proof (cases nfcData)
    case None
    then show ?thesis using assms by (simp add: bank_cycle_def)
  next
    case (Some nd)
    show ?thesis
    proof (cases "authorize bank (bankPaymentData p)")
      case (Inl err)
      then show ?thesis using assms Some by (simp add: bank_cycle_def Let_def)
    next
      case (Inr ar)
      show ?thesis
      proof (cases "a_success ar")
        case False
        have "fst (Payment_update (s \<lparr> trace := trace s @ [Bank_authorize (bankPaymentData p)] \<rparr>) p
                (no_update \<lparr> u_status := Some ''failed'', u_errorCode := Some (a_errorCode ar),
                   u_bankTransactionId := Some (Some (a_transactionId ar)) \<rparr>)) = None"
          using u [OF assms] by simp
        then show ?thesis
          using Some Inr False
          by (simp add: bank_cycle_def update_then_def split_beta Let_def split: option.splits)
      next
        case True
        let ?up = "Payment_update (s \<lparr> trace := trace s @ [Bank_authorize (bankPaymentData p)] \<rparr>) p
                (no_update \<lparr> u_bankTransactionId := Some (Some (a_transactionId ar)),
                   u_status := Some ''authorized'' \<rparr>)"
        have a: "fst ?up = None" and b: "p_completedAt (fst (snd ?up)) = None"
          using u [OF assms] by simp_all
        have w: "\<And>s' x. fst (Payment_update s' (fst (snd ?up))
                   (no_update \<lparr> u_status := Some ''failed'', u_errorCode := Some x \<rparr>)) = None"
          using u [OF b] by simp
        have c: "\<And>s'. fst (Payment_update s' (fst (snd ?up))
                   (no_update \<lparr> u_status := Some ''completed'', u_completedAt := Some now \<rparr>)) = None"
          by (rule v) simp
        show ?thesis
          using Some Inr True a b w c
          by (simp add: bank_cycle_def update_then_def split_beta Let_def
              split: option.splits sum.splits)
      qed
    qed
  qed
  then show ?thesis
  proof
    assume "fst (bank_cycle s bank now tid p nfcData) = None"
    then show ?thesis
      by (simp add: processNFCPaymentWithBank_def split_beta split: option.splits)
  next
    assume n: "p_completedAt (fst (snd (bank_cycle s bank now tid p nfcData))) = None"
    have "fst (Payment_update (snd (snd (bank_cycle s bank now tid p nfcData)))
             (fst (snd (bank_cycle s bank now tid p nfcData)))
             (no_update \<lparr> u_status := Some ''failed'', u_errorCode := Some (Some ''E003'') \<rparr>)) = None"
      using u [OF n] by simp
    then show ?thesis
      by (simp add: processNFCPaymentWithBank_def split_beta split: option.splits)
  qed
qed

lemma Payment_new_nfc:
  "p_id (Payment_new (nfc_paymentData tid nd) uuid now) = uuid"
  "p_completedAt (Payment_new (nfc_paymentData tid nd) uuid now) = None"
  "toISOString receiver (p_createdAt (Payment_new (nfc_paymentData tid nd) uuid now)) = Inr now"
  "completedAt_param object (Payment_new (nfc_paymentData tid nd) uuid now) = Inr None"
  by (simp_all add: Payment_new_def nfc_paymentData_def no_data_def or_str_def
      completedAt_param_def)

lemma handleNFCDetected_accepted:
  assumes "\<not> invalid_terminal_id (n_terminalId ev)"
    and "map_of (clients s) (the_string (n_terminalId ev)) \<noteq> None"
    and "nfc_detected_body s bank e later ws ev = r" and "fst r = None"
  shows "handleNFCDetected s bank e later ws ev = snd r"
  using assms by (cases r) (auto simp: handleNFCDetected_def)

text \<open>A tap that starts a new session, and a tap for a stored session, reach the bank cycle.\<close>

lemma nfc_detected_new_session:
  assumes "\<not> invalid_terminal_id (n_terminalId ev)"
    and "map_of (clients s) (the_string (n_terminalId ev)) \<noteq> None"
    and "\<not> truthy_str (n_paymentId ev)" and "n_nfcData ev = Some nd"
    and "payments s (e_uuid e) = None"
  shows "handleNFCDetected s bank e later ws ev =
     snd (processNFCPaymentWithBank
       (ws_send (s \<lparr> payments := (payments s)(e_uuid e \<mapsto> insert_row
            (Payment_new (nfc_paymentData (the_string (n_terminalId ev)) nd) (e_uuid e) (e_now e))
            (e_now e) None) \<rparr>)
          ws (Payment_status (status_only (Some (e_uuid e)) ''processing'' ''Processing NFC payment'')))
       bank later (the_string (n_terminalId ev))
       (Payment_new (nfc_paymentData (the_string (n_terminalId ev)) nd) (e_uuid e) (e_now e))
       (Some nd))"
proof -
  let ?p = "Payment_new (nfc_paymentData (the_string (n_terminalId ev)) nd) (e_uuid e) (e_now e)"
  have create: "Payment_create s (nfc_paymentData (the_string (n_terminalId ev)) nd) e =
      Inr (?p, s \<lparr> payments := (payments s)(e_uuid e \<mapsto> insert_row ?p (e_now e) None) \<rparr>)"
    using assms(5) by (simp add: Payment_create_def Payment_new_nfc Let_def)
  have "nfc_detected_body s bank e later ws ev =
      processNFCPaymentWithBank
       (ws_send (s \<lparr> payments := (payments s)(e_uuid e \<mapsto> insert_row ?p (e_now e) None) \<rparr>)
          ws (Payment_status (status_only (Some (e_uuid e)) ''processing'' ''Processing NFC payment'')))
       bank later (the_string (n_terminalId ev)) ?p (Some nd)"
    using assms(3,4) by (simp add: nfc_detected_body_def create Payment_new_nfc Let_def)
  then show ?thesis
    by (rule handleNFCDetected_accepted [OF assms(1,2) _ process_no_exception])
       (rule Payment_new_nfc)
qed

lemma nfc_detected_stored_session:
  assumes "\<not> invalid_terminal_id (n_terminalId ev)"
    and "map_of (clients s) (the_string (n_terminalId ev)) \<noteq> None"
    and "n_paymentId ev = Some i" and "i \<noteq> []"
    and "payments s i = Some row" and "r_id row = i" and "r_completedAt row = None"
  shows "handleNFCDetected s bank e later ws ev =
     snd (processNFCPaymentWithBank
       (ws_send (s \<lparr> payments := (payments s)(i \<mapsto> update_row row
            (assign (Payment_new (row_data row) (e_uuid e) (e_now e))
               (no_update \<lparr> u_method := Some ''nfc'', u_status := Some ''processing'' \<rparr>)) None) \<rparr>)
          ws (Payment_status (status_only (Some i) ''processing'' ''Processing NFC payment'')))
       bank later (the_string (n_terminalId ev))
       (assign (Payment_new (row_data row) (e_uuid e) (e_now e))
          (no_update \<lparr> u_method := Some ''nfc'', u_status := Some ''processing'' \<rparr>))
       (n_nfcData ev))"
proof -
  let ?p0 = "Payment_new (row_data row) (e_uuid e) (e_now e)"
  let ?u = "no_update \<lparr> u_method := Some ''nfc'', u_status := Some ''processing'' \<rparr>"
  have i: "p_id ?p0 = i" and n: "p_completedAt ?p0 = None"
    using assms(4,6,7) by (simp_all add: Payment_new_def row_data_def or_str_def)
  have f: "Payment_findById s (Some i) e = Some ?p0"
    using assms(5) by (simp add: Payment_findById_def)
  have st: "payments s (p_id ?p0) = Some row" using assms(5) i by simp
  have c: "completedAt_param ''this'' (assign ?p0 ?u) = Inr None"
    using n by (simp add: completedAt_param_simps)
  have n': "p_completedAt (assign ?p0 ?u) = None"
    using n by (simp add: assign_completedAt)
  have "nfc_detected_body s bank e later ws ev =
      processNFCPaymentWithBank
       (ws_send (s \<lparr> payments := (payments s)(i \<mapsto> update_row row (assign ?p0 ?u) None) \<rparr>)
          ws (Payment_status (status_only (Some i) ''processing'' ''Processing NFC payment'')))
       bank later (the_string (n_terminalId ev)) (assign ?p0 ?u) (n_nfcData ev)"
    using assms(3,4)
    by (simp add: nfc_detected_body_def truthy_str_def f Payment_update_stored [OF st c] i Let_def)
  then show ?thesis
    by (rule handleNFCDetected_accepted [OF assms(1,2) _ process_no_exception]) (rule n')
qed

text \<open>
  A tap for a stored session that has a completion time goes no further than the first
  \<open>payment.update\<close>: the instance holds the column's string, \<open>toISOString\<close> throws, and
  the \<open>catch\<close> block of \<open>handleNFCDetected\<close> answers with a \<open>failed\<close> status message. The
  store is left as it was.
\<close>

lemma nfc_detected_completed_session:
  assumes "\<not> invalid_terminal_id (n_terminalId ev)"
    and "map_of (clients s) (the_string (n_terminalId ev)) \<noteq> None"
    and "n_paymentId ev = Some i" and "i \<noteq> []"
    and "payments s i = Some row" and "r_completedAt row = Some t"
  shows "handleNFCDetected s bank e later ws ev =
     ws_send s ws (Payment_status ((status_only None ''failed'' ''Failed to process NFC payment'')
                     \<lparr> m_error := Some ''this.completedAt.toISOString is not a function'' \<rparr>))"
proof -
  let ?p0 = "Payment_new (row_data row) (e_uuid e) (e_now e)"
  let ?u = "no_update \<lparr> u_method := Some ''nfc'', u_status := Some ''processing'' \<rparr>"
  have n: "p_completedAt ?p0 = Some (Iso t)"
    using assms(6) by (simp add: Payment_new_def row_data_def)
  have f: "Payment_findById s (Some i) e = Some ?p0"
    using assms(5) by (simp add: Payment_findById_def)
  have "Payment_update s ?p0 ?u =
      (Some (TypeError ''this.completedAt.toISOString is not a function''), assign ?p0 ?u, s)"
    using n by (simp add: Payment_update_def completedAt_param_simps Let_def)
  then have "nfc_detected_body s bank e later ws ev =
      (Some (TypeError ''this.completedAt.toISOString is not a function''), s)"
    using assms(3,4) by (simp add: nfc_detected_body_def truthy_str_def f Let_def)
  then show ?thesis
    using assms(1,2) by (auto simp: handleNFCDetected_def)
qed

lemma example_connected_simps:
  "payments example_connected = Map.empty"
  "clients example_connected = [(''T1'', 1)]"
  "readyState example_connected = (\<lambda>ws. 1)"
  "terminals example_connected = [''T1'' \<mapsto> example_terminal]"
  using example_valid
  by (simp_all add: example_connected_def handleTerminalReady_def Terminal_findById_def
      example_server_def ws_send_def)

lemma example_detection_simps:
  "n_terminalId example_detection = JStr ''T1''"
  "n_paymentId example_detection = None"
  "n_nfcData example_detection = Some example_nfc_data"
  by (simp_all add: example_detection_def)

lemma example_new_payment:
  "Payment_new (nfc_paymentData ''T1'' example_nfc_data) ''p-1'' 100 =
     \<lparr> p_id = ''p-1'', p_terminalId = ''T1'', p_amount = 10000, p_currency = ''RUB'',
       p_method = ''nfc'', p_status = ''processing'', p_bankTransactionId = None,
       p_errorCode = None, p_createdAt = Date 100, p_completedAt = None \<rparr>"
  by (simp add: Payment_new_def nfc_paymentData_def no_data_def example_nfc_data_def
      or_str_def or_int_def truthy_str_def)

lemma example_tap:
  "handleNFCDetected example_connected bank example_env later 1 example_detection =
     snd (processNFCPaymentWithBank
       (ws_send (example_connected \<lparr> payments :=
            [''p-1'' \<mapsto> insert_row (Payment_new (nfc_paymentData ''T1'' example_nfc_data) ''p-1'' 100)
                          100 None] \<rparr>)
          1 (Payment_status (status_only (Some ''p-1'') ''processing'' ''Processing NFC payment'')))
       bank later ''T1''
       (Payment_new (nfc_paymentData ''T1'' example_nfc_data) ''p-1'' 100)
       (Some example_nfc_data))"
  using nfc_detected_new_session [of example_detection example_connected example_nfc_data
      example_env bank later 1]
  by (simp add: example_detection_simps example_valid example_connected_simps truthy_str_def
      example_env_def)

lemma example_processing_simps:
  "p_id example_processing_payment = ''p-1''"
  "p_amount example_processing_payment = 10000"
  "p_bankTransactionId example_processing_payment = None"
  "p_completedAt example_processing_payment = None"
  "payments example_processing ''p-1'' = Some example_processing_row"
  "clients example_processing = [(''T1'', 1)]"
  "readyState example_processing = (\<lambda>ws. 1)"
  by (simp_all add: example_processing_payment_def example_processing_row_def
      example_payment_def example_processing_def example_connected_simps
      Payment_new_def row_data_def or_str_def or_int_def truthy_str_def)

lemma example_banks:
  "authorize example_bank d = Inr (authorizePayment (TestBankAPI_new None None) d example_random)"
  "capture example_bank t a = Inr (capturePayment t (Some a) (1 / 2) 8)"
  "authorize example_declining_bank d =
     Inr (authorizePayment (setSuccessRate (TestBankAPI_new None None) 0) d example_random)"
  "authorize example_failing_bank d = Inl (BankError ''ETIMEDOUT'')"
  by (simp_all add: example_bank_def example_declining_bank_def example_failing_bank_def
      TestBank_def)

lemma example_outcomes:
  "a_success (authorizePayment (TestBankAPI_new None None) d example_random)"
  "a_transactionId (authorizePayment b d example_random) = ''tx-1''"
  "\<not> a_success (authorizePayment (setSuccessRate (TestBankAPI_new None None) 0) d example_random)"
  "a_errorCode (authorizePayment (setSuccessRate (TestBankAPI_new None None) 0) d example_random)
     = Some ''E004''"
  "c_success (capturePayment t a (1 / 2) 8)"
  by (simp_all add: authorizePayment_def TestBankAPI_new_def setSuccessRate_def or_real_def
      example_random_def capturePayment_def Let_def generateRandomError_def errorCodes_def)

text \<open>
  What \<open>handleNFCDetected\<close> does with a tap that names a session which has ended. The
  session that the bank declined has no completion time: it is set to \<open>processing\<close>
  again and goes through the bank cycle, which here completes it. The completed session
  has a completion time: the first \<open>payment.update\<close> throws, the socket receives a
  \<open>failed\<close> status message, and the store is left as it was.
\<close>

lemma second_tap_on_declined_session:
  "map_option r_status (payments example_declined ''p-1'') = Some ''failed'' \<and>
   map_option r_status
     (payments (handleNFCDetected example_declined example_bank example_env 200 1
        example_second_tap) ''p-1'') = Some ''completed''"
proof -
  let ?row = example_declined_row
  let ?p1 = "assign (Payment_new (row_data ?row) (e_uuid example_env) (e_now example_env))
          (no_update \<lparr> u_method := Some ''nfc'', u_status := Some ''processing'' \<rparr>)"
  let ?s2 = "ws_send (example_declined \<lparr> payments := (payments example_declined)(''p-1'' \<mapsto>
               update_row ?row ?p1 None) \<rparr>)
          1 (Payment_status (status_only (Some ''p-1'') ''processing'' ''Processing NFC payment''))"
  have row: "payments example_declined ''p-1'' = Some ?row" "r_id ?row = ''p-1''"
      "r_completedAt ?row = None" "r_status ?row = ''failed''"
    by (simp_all add: example_declined_def example_declined_row_def example_payment_def)
  have c: "map_of (clients example_declined) ''T1'' \<noteq> None"
    by (simp add: example_declined_def example_connected_simps)
  have tap: "handleNFCDetected example_declined example_bank example_env 200 1 example_second_tap =
      snd (processNFCPaymentWithBank ?s2 example_bank 200 ''T1'' ?p1 (Some example_nfc_data))"
    using nfc_detected_stored_session [of example_second_tap example_declined "''p-1''" ?row
        example_bank example_env 200 1]
    by (simp add: example_second_tap_def example_valid c row)
  have i0: "p_id (Payment_new (row_data ?row) (e_uuid example_env) (e_now example_env)) = ''p-1''"
    by (simp add: Payment_new_def row_data_def or_str_def row)
  have i: "p_id ?p1 = ''p-1''" and n: "p_completedAt ?p1 = None"
    by (simp_all add: Payment_new_def row_data_def or_str_def row assign_completedAt)
  have st: "payments ?s2 (p_id ?p1) = Some (update_row ?row ?p1 None)"
    by (simp add: i0 ws_send_def)
  have au: "authorize example_bank (bankPaymentData ?p1) =
      Inr (authorizePayment (TestBankAPI_new None None) (bankPaymentData ?p1) example_random)"
    by (rule example_banks)
  have ca: "capture example_bank
      (a_transactionId (authorizePayment (TestBankAPI_new None None) (bankPaymentData ?p1)
         example_random)) (p_amount ?p1) =
      Inr (capturePayment (a_transactionId (authorizePayment (TestBankAPI_new None None)
         (bankPaymentData ?p1) example_random)) (Some (p_amount ?p1)) (1 / 2) 8)"
    by (rule example_banks)
  show ?thesis
    unfolding tap process_captured [OF st n au example_outcomes(1) ca example_outcomes(5)]
    by (simp add: row i0 assign_def no_update_def)
qed

lemma second_tap_on_completed_session:
  "handleNFCDetected example_completed example_bank example_env 200 1 example_second_tap =
     ws_send example_completed 1
       (Payment_status ((status_only None ''failed'' ''Failed to process NFC payment'')
          \<lparr> m_error := Some ''this.completedAt.toISOString is not a function'' \<rparr>))"
proof -
  have c: "map_of (clients example_completed) ''T1'' \<noteq> None"
    by (simp add: example_completed_def example_connected_simps)
  have v: "\<not> invalid_terminal_id (n_terminalId example_second_tap)"
    and c': "map_of (clients example_completed) (the_string (n_terminalId example_second_tap)) \<noteq> None"
    and i: "n_paymentId example_second_tap = Some ''p-1''"
    using example_valid c by (simp_all add: example_second_tap_def)
  have r: "payments example_completed ''p-1'' = Some example_payment"
    and t: "r_completedAt example_payment = Some 60"
    by (simp_all add: example_completed_def example_payment_def)
  show ?thesis
    by (rule nfc_detected_completed_session [OF v c' i _ r t]) simp
qed

text \<open>
  The bank cycle as \<open>handleNFCDetected\<close> runs it for a tap that starts a new session,
  when every call of the bank throws: the new session is stored \<open>failed\<close> with the code
  \<open>E003\<close>, and the server sends the \<open>processing\<close> message, calls the bank once and pushes
  the \<open>failed\<close> message.
\<close>

lemma nfc_detected_bank_down:
  assumes "\<not> invalid_terminal_id (n_terminalId ev)"
    and "map_of (clients s) (the_string (n_terminalId ev)) \<noteq> None"
    and "\<not> truthy_str (n_paymentId ev)" and "n_nfcData ev = Some nd"
    and "payments s (e_uuid e) = None"
    and "\<And>d. authorize bank d = Inl err"
  shows "map_option r_status (payments (handleNFCDetected s bank e later ws ev) (e_uuid e))
           = Some ''failed''"
    and "map_option r_errorCode (payments (handleNFCDetected s bank e later ws ev) (e_uuid e))
           = Some (Some ''E003'')"
    and "\<exists>d. trace (handleNFCDetected s bank e later ws ev) = trace s @
           [Sent ws (Payment_status (status_only (Some (e_uuid e)) ''processing''
                       ''Processing NFC payment'')),
            Bank_authorize d,
            pushed s (the_string (n_terminalId ev))
              (failed_status (e_uuid e) ''Bank communication error'' (Some ''E003'')
                 (Some ''Network connection error''))]"
proof -
  let ?tid = "the_string (n_terminalId ev)"
  let ?p = "Payment_new (nfc_paymentData ?tid nd) (e_uuid e) (e_now e)"
  let ?s2 = "ws_send (s \<lparr> payments := (payments s)(e_uuid e \<mapsto> insert_row ?p (e_now e) None) \<rparr>)
          ws (Payment_status (status_only (Some (e_uuid e)) ''processing'' ''Processing NFC payment''))"
  have i: "p_id ?p = e_uuid e" and n: "p_completedAt ?p = None" by (rule Payment_new_nfc)+
  have st: "payments ?s2 (p_id ?p) = Some (insert_row ?p (e_now e) None)"
    by (simp add: i ws_send_def)
  note run = process_auth_throws [OF st n assms(6), of later ?tid nd]
  note tap = nfc_detected_new_session [OF assms(1-5), of bank later ws]
  show "map_option r_status (payments (handleNFCDetected s bank e later ws ev) (e_uuid e))
           = Some ''failed''"
    and "map_option r_errorCode (payments (handleNFCDetected s bank e later ws ev) (e_uuid e))
           = Some (Some ''E003'')"
    unfolding tap run by (simp_all add: i assign_def no_update_def)
  show "\<exists>d. trace (handleNFCDetected s bank e later ws ev) = trace s @
           [Sent ws (Payment_status (status_only (Some (e_uuid e)) ''processing''
                       ''Processing NFC payment'')),
            Bank_authorize d,
            pushed s (the_string (n_terminalId ev))
              (failed_status (e_uuid e) ''Bank communication error'' (Some ''E003'')
                 (Some ''Network connection error''))]"
    unfolding tap run by (simp add: i ws_send_def)
qed

subsection \<open>Events for a session that has ended, and for a session that does not exist\<close>

text \<open>
  Claim C1 says that an event for a session whose status is \<open>completed\<close> or \<open>failed\<close> is
  rejected with an error and leaves the stored session as it is. The code does
  otherwise, since neither handler looks at the stored status. A \<open>payment_completed\<close>
  event that reports failure for the completed session \<open>p-1\<close> is accepted: the stored
  status becomes \<open>failed\<close> and the socket receives a \<open>payment_status\<close> message, not an
  error. A \<open>nfc_detected\<close> event for the session \<open>p-1\<close> that the bank declined is accepted
  too: the session goes through the bank cycle again and ends \<open>completed\<close>.
\<close>

theorem ended_session_altered:
  "map_option r_status (payments example_completed ''p-1'') = Some ''completed'' \<and>
   map_option r_status
     (payments (handlePaymentCompleted example_completed example_env 1 example_completion) ''p-1'')
     = Some ''failed'' \<and>
   trace (handlePaymentCompleted example_completed example_env 1 example_completion)
     = trace example_completed @
       [Sent 1 (Payment_status ((status_only (Some ''p-1'') ''failed'' ''Payment failed'')
                  \<lparr> m_result := Some example_failure \<rparr>))] \<and>
   map_option r_status (payments example_declined ''p-1'') = Some ''failed'' \<and>
   map_option r_status
     (payments (handleNFCDetected example_declined example_bank example_env 200 1
        example_second_tap) ''p-1'') = Some ''completed''"
proof -
  have "map_option r_status (payments example_completed ''p-1'') = Some ''completed'' \<and>
   map_option r_status
     (payments (handlePaymentCompleted example_completed example_env 1 example_completion) ''p-1'')
     = Some ''failed'' \<and>
   trace (handlePaymentCompleted example_completed example_env 1 example_completion)
     = trace example_completed @
       [Sent 1 (Payment_status ((status_only (Some ''p-1'') ''failed'' ''Payment failed'')
                  \<lparr> m_result := Some example_failure \<rparr>))]"
    by (simp add: example_completed_def example_payment_def example_completion_def
        example_failure_def example_env_def handlePaymentCompleted_def example_valid
        Payment_findById_def Payment_new_def row_data_def or_str_def or_int_def truthy_str_def
        Payment_update_def assign_def no_update_def completedAt_param_def update_row_def
        ws_send_def Let_def)
  with second_tap_on_declined_session show ?thesis by blast
qed

text \<open>
  What the two handlers do reject: an event whose session id is not in the store is
  answered with the error \<open>Payment not found\<close> and changes nothing. A \<open>payment_completed\<close>
  event for a stored session is applied whatever the status of the session. (A row is
  stored under its own id, which is not empty.)
\<close>

lemma unknown_session_rejected:
  "(\<not> invalid_terminal_id (n_terminalId nfc) \<and>
    map_of (clients s) (the_string (n_terminalId nfc)) \<noteq> None \<and>
    n_paymentId nfc = Some i \<and> i \<noteq> [] \<and> payments s i = None \<longrightarrow>
      handleNFCDetected s bank e later ws nfc = ws_send s ws (Error_msg ''Payment not found'' None) \<and>
      payments (handleNFCDetected s bank e later ws nfc) = payments s) \<and>
   (\<not> invalid_terminal_id (ce_terminalId done) \<and>
    (ce_paymentId done = None \<or> (\<exists>j. ce_paymentId done = Some j \<and> payments s j = None)) \<longrightarrow>
      handlePaymentCompleted s e ws done = ws_send s ws (Error_msg ''Payment not found'' None) \<and>
      payments (handlePaymentCompleted s e ws done) = payments s) \<and>
   (\<not> invalid_terminal_id (ce_terminalId done) \<and> ce_paymentId done = Some k \<and>
    payments s k = Some row \<and> r_id row = k \<and> k \<noteq> [] \<and> ce_result done = Some result \<longrightarrow>
      map_option r_status (payments (handlePaymentCompleted s e ws done) k) = Some (cr_status result) \<and>
      map_option r_completedAt (payments (handlePaymentCompleted s e ws done) k) = Some (Some (e_now e)) \<and>
      (\<exists>m. trace (handlePaymentCompleted s e ws done) = trace s @ [Sent ws (Payment_status m)] \<and>
           m_status m = cr_status result))"
proof (intro conjI impI)
  assume "\<not> invalid_terminal_id (n_terminalId nfc) \<and>
    map_of (clients s) (the_string (n_terminalId nfc)) \<noteq> None \<and>
    n_paymentId nfc = Some i \<and> i \<noteq> [] \<and> payments s i = None"
  then have "handleNFCDetected s bank e later ws nfc = ws_send s ws (Error_msg ''Payment not found'' None)"
    by (auto simp: handleNFCDetected_def nfc_detected_body_def truthy_str_def Payment_findById_def)
  then show "handleNFCDetected s bank e later ws nfc = ws_send s ws (Error_msg ''Payment not found'' None)"
    and "payments (handleNFCDetected s bank e later ws nfc) = payments s"
    by (simp_all add: ws_send_def)
next
  assume "\<not> invalid_terminal_id (ce_terminalId done) \<and>
    (ce_paymentId done = None \<or> (\<exists>j. ce_paymentId done = Some j \<and> payments s j = None))"
  then have "handlePaymentCompleted s e ws done = ws_send s ws (Error_msg ''Payment not found'' None)"
    by (auto simp: handlePaymentCompleted_def Payment_findById_def)
  then show "handlePaymentCompleted s e ws done = ws_send s ws (Error_msg ''Payment not found'' None)"
    and "payments (handlePaymentCompleted s e ws done) = payments s"
    by (simp_all add: ws_send_def)
next
  assume a: "\<not> invalid_terminal_id (ce_terminalId done) \<and> ce_paymentId done = Some k \<and>
    payments s k = Some row \<and> r_id row = k \<and> k \<noteq> [] \<and> ce_result done = Some result"
  then have f: "Payment_findById s (ce_paymentId done) e = Some (Payment_new (row_data row) (e_uuid e) (e_now e))"
    and i: "p_id (Payment_new (row_data row) (e_uuid e) (e_now e)) = k"
    by (simp_all add: Payment_findById_def Payment_new_def row_data_def or_str_def)
  from a f i
  show "map_option r_status (payments (handlePaymentCompleted s e ws done) k) = Some (cr_status result)"
    and "map_option r_completedAt (payments (handlePaymentCompleted s e ws done) k) = Some (Some (e_now e))"
    and "\<exists>m. trace (handlePaymentCompleted s e ws done) = trace s @ [Sent ws (Payment_status m)] \<and>
           m_status m = cr_status result"
    by (simp_all add: handlePaymentCompleted_def Payment_update_def assign_def no_update_def
        completedAt_param_def update_row_def ws_send_def status_only_def Let_def)
qed

subsection \<open>The bank transaction reference\<close>

text \<open>
  Claim C2, as stated, fails: a declined authorization stores the bank transaction
  reference. Terminal \<open>T1\<close> reports a tap that starts a new session while the simulator
  declines every authorization; the session ends \<open>failed\<close> with the bank's error code,
  and its \<open>bankTransactionId\<close> is the transaction id of the declined result.
\<close>

theorem declined_session_keeps_reference:
  "map_option r_status
     (payments (handleNFCDetected example_connected example_declining_bank example_env 200 1
        example_detection) ''p-1'') = Some ''failed'' \<and>
   map_option r_errorCode
     (payments (handleNFCDetected example_connected example_declining_bank example_env 200 1
        example_detection) ''p-1'') = Some (Some ''E004'') \<and>
   map_option r_bankTransactionId
     (payments (handleNFCDetected example_connected example_declining_bank example_env 200 1
        example_detection) ''p-1'') = Some (Some ''tx-1'')"
proof -
  let ?p = "Payment_new (nfc_paymentData ''T1'' example_nfc_data) ''p-1'' 100"
  let ?s2 = "ws_send (example_connected \<lparr> payments := [''p-1'' \<mapsto> insert_row ?p 100 None] \<rparr>)
          1 (Payment_status (status_only (Some ''p-1'') ''processing'' ''Processing NFC payment''))"
  have i: "p_id ?p = ''p-1''" and n: "p_completedAt ?p = None" by (rule Payment_new_nfc)+
  have st: "payments ?s2 (p_id ?p) = Some (insert_row ?p 100 None)" by (simp add: i ws_send_def)
  let ?ar = "authorizePayment (setSuccessRate (TestBankAPI_new None None) 0)
               (bankPaymentData ?p) example_random"
  have au: "authorize example_declining_bank (bankPaymentData ?p) = Inr ?ar"
    by (simp add: example_declining_bank_def TestBank_def)
  have ns: "\<not> a_success ?ar" and tx: "a_transactionId ?ar = ''tx-1''"
    and ec: "a_errorCode ?ar = Some ''E004''"
    by (simp_all add: authorizePayment_def setSuccessRate_def example_random_def Let_def
        generateRandomError_def errorCodes_def)
  show ?thesis
    unfolding example_tap process_auth_declined [OF st n au ns]
    by (simp add: i assign_def no_update_def tx ec)
qed

text \<open>
  Claim C2, amended. For every stored session that the orchestrator takes through the
  bank cycle, the bank transaction reference is set once \<open>authorizePayment\<close> has returned
  a result, successful or declined, and is then the transaction id of that result. In
  particular a session whose authorization is declined ends \<open>failed\<close> with the error
  code of the declined result and with the transaction id of the declined result as its
  \<open>bankTransactionId\<close>. When \<open>authorizePayment\<close> throws, the reference stays as it was.
  (The instance has no completion time, as has every instance that \<open>handleNFCDetected\<close>
  passes on.)
\<close>

theorem bank_reference_after_authorize:
  assumes stored: "payments s (p_id p) = Some row" and fresh: "p_completedAt p = None"
  shows "(\<forall>ar. authorize bank (bankPaymentData p) = Inr ar \<and> \<not> a_success ar \<longrightarrow>
        map_option r_status
          (payments (snd (processNFCPaymentWithBank s bank now tid p (Some nd))) (p_id p))
          = Some ''failed'' \<and>
        map_option r_errorCode
          (payments (snd (processNFCPaymentWithBank s bank now tid p (Some nd))) (p_id p))
          = Some (a_errorCode ar) \<and>
        map_option r_bankTransactionId
          (payments (snd (processNFCPaymentWithBank s bank now tid p (Some nd))) (p_id p))
          = Some (Some (a_transactionId ar))) \<and>
     (\<forall>ar. authorize bank (bankPaymentData p) = Inr ar \<and> a_success ar \<longrightarrow>
        map_option r_bankTransactionId
          (payments (snd (processNFCPaymentWithBank s bank now tid p (Some nd))) (p_id p))
          = Some (Some (a_transactionId ar))) \<and>
     (\<forall>err. authorize bank (bankPaymentData p) = Inl err \<longrightarrow>
        map_option r_bankTransactionId
          (payments (snd (processNFCPaymentWithBank s bank now tid p (Some nd))) (p_id p))
          = Some (p_bankTransactionId p))"
proof (intro conjI allI impI)
  fix ar
  assume a: "authorize bank (bankPaymentData p) = Inr ar \<and> \<not> a_success ar"
  then have au: "authorize bank (bankPaymentData p) = Inr ar" and ns: "\<not> a_success ar"
    by simp_all
  let ?s' = "snd (processNFCPaymentWithBank s bank now tid p (Some nd))"
  show "map_option r_status (payments ?s' (p_id p)) = Some ''failed''"
    and "map_option r_errorCode (payments ?s' (p_id p)) = Some (a_errorCode ar)"
    and "map_option r_bankTransactionId (payments ?s' (p_id p)) = Some (Some (a_transactionId ar))"
    by (simp_all add: process_auth_declined [OF stored fresh au ns] assign_def no_update_def)
next
  fix ar
  assume a: "authorize bank (bankPaymentData p) = Inr ar \<and> a_success ar"
  then have au: "authorize bank (bankPaymentData p) = Inr ar" and ok: "a_success ar"
    by simp_all
  let ?s' = "snd (processNFCPaymentWithBank s bank now tid p (Some nd))"
  show "map_option r_bankTransactionId (payments ?s' (p_id p)) = Some (Some (a_transactionId ar))"
  proof (cases "capture bank (a_transactionId ar) (p_amount p)")
    case (Inl err)
    show ?thesis
      by (simp add: process_capture_throws [OF stored fresh au ok Inl] assign_def no_update_def)
  next
    case (Inr cr)
    show ?thesis
    proof (cases "c_success cr")
      case True
      show ?thesis
        by (simp add: process_captured [OF stored fresh au ok Inr True] assign_def no_update_def)
    next
      case False
      show ?thesis
        by (simp add: process_capture_declined [OF stored fresh au ok Inr False] assign_def no_update_def)
    qed
  qed
next
  fix err
  assume au: "authorize bank (bankPaymentData p) = Inl err"
  show "map_option r_bankTransactionId
          (payments (snd (processNFCPaymentWithBank s bank now tid p (Some nd))) (p_id p))
          = Some (p_bankTransactionId p)"
    by (simp add: process_auth_throws [OF stored fresh au] assign_def no_update_def)
qed

theorem bank_reference_after_authorize_witness:
  "payments example_processing (p_id example_processing_payment) = Some example_processing_row \<and>
   p_completedAt example_processing_payment = None \<and>
   \<not> a_success (authorizePayment (setSuccessRate (TestBankAPI_new None None) 0)
        (bankPaymentData example_processing_payment) example_random) \<and>
   map_option r_bankTransactionId
     (payments (snd (processNFCPaymentWithBank example_processing example_declining_bank 200 ''T1''
        example_processing_payment (Some example_nfc_data))) ''p-1'') = Some (Some ''tx-1'') \<and>
   map_option r_status
     (payments (snd (processNFCPaymentWithBank example_processing example_declining_bank 200 ''T1''
        example_processing_payment (Some example_nfc_data))) ''p-1'') = Some ''failed'' \<and>
   a_success (authorizePayment (TestBankAPI_new None None)
        (bankPaymentData example_processing_payment) example_random) \<and>
   map_option r_bankTransactionId
     (payments (snd (processNFCPaymentWithBank example_processing example_bank 200 ''T1''
        example_processing_payment (Some example_nfc_data))) ''p-1'') = Some (Some ''tx-1'') \<and>
   authorize example_failing_bank (bankPaymentData example_processing_payment)
     = Inl (BankError ''ETIMEDOUT'') \<and>
   map_option r_bankTransactionId
     (payments (snd (processNFCPaymentWithBank example_processing example_failing_bank 200 ''T1''
        example_processing_payment (Some example_nfc_data))) ''p-1'') = Some None"
proof -
  have st: "payments example_processing (p_id example_processing_payment)
      = Some example_processing_row"
    and fr: "p_completedAt example_processing_payment = None"
    by (simp_all add: example_processing_simps)
  note t = bank_reference_after_authorize [OF st fr, of _ 200 "''T1''" example_nfc_data]
  have d: "map_option r_bankTransactionId
     (payments (snd (processNFCPaymentWithBank example_processing example_declining_bank 200 ''T1''
        example_processing_payment (Some example_nfc_data))) ''p-1'') = Some (Some ''tx-1'')"
    and d': "map_option r_status
     (payments (snd (processNFCPaymentWithBank example_processing example_declining_bank 200 ''T1''
        example_processing_payment (Some example_nfc_data))) ''p-1'') = Some ''failed''"
    using t [of example_declining_bank]
    by (simp_all add: example_banks example_outcomes example_processing_simps)
  have g: "map_option r_bankTransactionId
     (payments (snd (processNFCPaymentWithBank example_processing example_bank 200 ''T1''
        example_processing_payment (Some example_nfc_data))) ''p-1'') = Some (Some ''tx-1'')"
    using t [of example_bank]
    by (simp add: example_banks example_outcomes example_processing_simps)
  have f: "map_option r_bankTransactionId
     (payments (snd (processNFCPaymentWithBank example_processing example_failing_bank 200 ''T1''
        example_processing_payment (Some example_nfc_data))) ''p-1'') = Some None"
    using t [of example_failing_bank]
    by (simp add: example_banks example_processing_simps)
  from st fr d d' g f show ?thesis
    by (simp add: example_banks example_outcomes)
qed

subsection \<open>The completion time\<close>




subsection \<open>A bank that throws\<close>

text \<open>
  Claim C4. Let the orchestrator take a stored session through the bank cycle, and let
  the bank throw, in \<open>authorizePayment\<close> or, after a successful authorization, in
  \<open>capturePayment\<close>. Then no exception leaves \<open>processNFCPaymentWithBank\<close>; the stored
  session has the status \<open>failed\<close> and the error code \<open>E003\<close>; and the last thing the
  server does is to push a \<open>failed\<close> \<open>payment_status\<close> message with the code \<open>E003\<close> to the
  terminal: the message is handed to the terminal's socket when that socket is registered
  and open, and \<open>sendToTerminal\<close> reports it undelivered otherwise. (The instance has no
  completion time, as has every instance that \<open>handleNFCDetected\<close> passes on.)
\<close>

theorem bank_exception_caught:
  assumes stored: "payments s (p_id p) = Some row" and fresh: "p_completedAt p = None"
    and throws: "authorize bank (bankPaymentData p) = Inl err \<or>
       (\<exists>ar. authorize bank (bankPaymentData p) = Inr ar \<and> a_success ar \<and>
             capture bank (a_transactionId ar) (p_amount p) = Inl err)"
  shows "fst (processNFCPaymentWithBank s bank now tid p (Some nd)) = None \<and>
     map_option r_status
       (payments (snd (processNFCPaymentWithBank s bank now tid p (Some nd))) (p_id p))
       = Some ''failed'' \<and>
     map_option r_errorCode
       (payments (snd (processNFCPaymentWithBank s bank now tid p (Some nd))) (p_id p))
       = Some (Some ''E003'') \<and>
     (\<forall>c. map_of (clients s) tid = Some c \<and> readyState s c = 1 \<longrightarrow>
        last (trace (snd (processNFCPaymentWithBank s bank now tid p (Some nd)))) =
          Sent c (failed_status (p_id p) ''Bank communication error'' (Some ''E003'')
                    (Some ''Network connection error''))) \<and>
     ((\<forall>c. map_of (clients s) tid = Some c \<longrightarrow> readyState s c \<noteq> 1) \<longrightarrow>
        last (trace (snd (processNFCPaymentWithBank s bank now tid p (Some nd)))) =
          Not_delivered tid (failed_status (p_id p) ''Bank communication error'' (Some ''E003'')
                    (Some ''Network connection error'')))"
proof -
  let ?m = "failed_status (p_id p) ''Bank communication error'' (Some ''E003'')
              (Some ''Network connection error'')"
  have live: "\<forall>c. map_of (clients s) tid = Some c \<and> readyState s c = 1 \<longrightarrow> pushed s tid ?m = Sent c ?m"
    by (simp add: pushed_def)
  have dead: "(\<forall>c. map_of (clients s) tid = Some c \<longrightarrow> readyState s c \<noteq> 1) \<longrightarrow>
      pushed s tid ?m = Not_delivered tid ?m"
    by (simp add: pushed_def split: option.splits)
  from throws show ?thesis
  proof
    assume "authorize bank (bankPaymentData p) = Inl err"
    from process_auth_throws [OF stored fresh this, of now tid nd] live dead
    show ?thesis by (simp add: assign_def no_update_def)
  next
    assume "\<exists>ar. authorize bank (bankPaymentData p) = Inr ar \<and> a_success ar \<and>
             capture bank (a_transactionId ar) (p_amount p) = Inl err"
    then obtain ar where "authorize bank (bankPaymentData p) = Inr ar" and "a_success ar"
      and "capture bank (a_transactionId ar) (p_amount p) = Inl err" by blast
    from process_capture_throws [OF stored fresh this, of now tid nd] live dead
    show ?thesis by (simp add: assign_def no_update_def)
  qed
qed

theorem bank_exception_caught_witness:
  "payments example_processing (p_id example_processing_payment) = Some example_processing_row \<and>
   p_completedAt example_processing_payment = None \<and>
   authorize example_failing_bank (bankPaymentData example_processing_payment)
     = Inl (BankError ''ETIMEDOUT'') \<and>
   map_of (clients example_processing) ''T1'' = Some 1 \<and> readyState example_processing 1 = 1 \<and>
   fst (processNFCPaymentWithBank example_processing example_failing_bank 200 ''T1''
          example_processing_payment (Some example_nfc_data)) = None \<and>
   map_option r_status
     (payments (snd (processNFCPaymentWithBank example_processing example_failing_bank 200 ''T1''
          example_processing_payment (Some example_nfc_data))) ''p-1'') = Some ''failed'' \<and>
   map_option r_errorCode
     (payments (snd (processNFCPaymentWithBank example_processing example_failing_bank 200 ''T1''
          example_processing_payment (Some example_nfc_data))) ''p-1'') = Some (Some ''E003'') \<and>
   last (trace (snd (processNFCPaymentWithBank example_processing example_failing_bank 200 ''T1''
          example_processing_payment (Some example_nfc_data)))) =
     Sent 1 (failed_status ''p-1'' ''Bank communication error'' (Some ''E003'')
               (Some ''Network connection error'')) \<and>
   map_of (clients example_processing) ''T9'' = None \<and>
   last (trace (snd (processNFCPaymentWithBank example_processing example_failing_bank 200 ''T9''
          example_processing_payment (Some example_nfc_data)))) =
     Not_delivered ''T9'' (failed_status ''p-1'' ''Bank communication error'' (Some ''E003'')
               (Some ''Network connection error''))"
proof -
  have i: "p_id example_processing_payment = ''p-1''"
    and f: "p_completedAt example_processing_payment = None"
    by (simp_all add: example_processing_payment_def example_processing_row_def
        example_payment_def Payment_new_def row_data_def or_str_def)
  have st: "payments example_processing (p_id example_processing_payment)
      = Some example_processing_row"
    by (simp add: i example_processing_def)
  have th: "authorize example_failing_bank (bankPaymentData example_processing_payment)
      = Inl (BankError ''ETIMEDOUT'')"
    by (simp add: example_failing_bank_def)
  have c: "map_of (clients example_processing) ''T1'' = Some 1"
    and r: "readyState example_processing 1 = 1"
    using example_valid
    by (simp_all add: example_processing_def example_connected_def handleTerminalReady_def
        Terminal_findById_def example_server_def ws_send_def)
  have c9: "map_of (clients example_processing) ''T9'' = None"
    using example_valid
    by (simp add: example_processing_def example_connected_def handleTerminalReady_def
        Terminal_findById_def example_server_def ws_send_def)
  from bank_exception_caught [OF st f disjI1 [OF th], of 200 "''T1''" example_nfc_data]
    bank_exception_caught [OF st f disjI1 [OF th], of 200 "''T9''" example_nfc_data]
    st f th c r i c9
  show ?thesis by simp
qed

subsection \<open>A payment request for a terminal that is not connected\<close>

text \<open>
  Claim C5. A payment request for a terminal id with no live channel (no socket
  registered under the id, or a registered socket that is not open) fails with the error
  \<open>Terminal not connected\<close>; no \<open>payment_request\<close> message and no other message is handed
  to any socket; and a session record exists afterwards under the fresh id, with the
  status \<open>failed\<close> and the error code \<open>TERMINAL_OFFLINE\<close>. The terminal id passes the
  guard of \<open>sendPaymentRequest\<close> and the generated id is not in use.
\<close>

theorem sendPaymentRequest_offline:
  assumes valid: "\<not> invalid_terminal_id terminalId"
    and fresh: "payments s (e_uuid e) = None"
    and offline: "\<not> isTerminalConnected s terminalId"
  shows "fst (sendPaymentRequest s e terminalId paymentData) = Inl (Error ''Terminal not connected'') \<and>
     (\<exists>m. trace (snd (sendPaymentRequest s e terminalId paymentData)) =
            trace s @ [Not_delivered (the_string terminalId) m]) \<and>
     (\<forall>ws m. Sent ws m \<in> set (trace (snd (sendPaymentRequest s e terminalId paymentData)))
         \<longrightarrow> Sent ws m \<in> set (trace s)) \<and>
     (\<exists>p. payments (snd (sendPaymentRequest s e terminalId paymentData)) (e_uuid e) = Some p \<and>
          r_id p = e_uuid e \<and> r_terminalId p = the_string terminalId \<and>
          r_status p = ''failed'' \<and> r_errorCode p = Some ''TERMINAL_OFFLINE'') \<and>
     (\<forall>i. i \<noteq> e_uuid e \<longrightarrow>
          payments (snd (sendPaymentRequest s e terminalId paymentData)) i = payments s i)"
proof -
  obtain tid where tid: "terminalId = JStr tid" and ne: "tid \<noteq> []"
    using valid by (cases terminalId) (auto simp: invalid_terminal_id_def)
  let ?p = "Payment_new (no_data \<lparr> d_terminalId := Some tid, d_amount := q_amount paymentData,
                 d_currency := Some (or_str (q_currency paymentData) ''RUB''),
                 d_method := Some (or_str (q_method paymentData) ''nfc''),
                 d_status := Some ''pending'' \<rparr>) (e_uuid e) (e_now e)"
  have pid: "p_id ?p = e_uuid e" and ptid: "p_terminalId ?p = tid"
    using ne by (simp_all add: Payment_new_def no_data_def or_str_def)
  have times: "toISOString ''payment.createdAt'' (p_createdAt ?p) = Inr (e_now e)"
      "\<And>object. completedAt_param object ?p = Inr None"
    by (simp_all add: Payment_new_def no_data_def completedAt_param_def)
  let ?s1 = "s \<lparr> payments := (payments s)(e_uuid e \<mapsto> insert_row ?p (e_now e) None) \<rparr>"
  have create: "Payment_create s (no_data \<lparr> d_terminalId := Some tid, d_amount := q_amount paymentData,
                 d_currency := Some (or_str (q_currency paymentData) ''RUB''),
                 d_method := Some (or_str (q_method paymentData) ''nfc''),
                 d_status := Some ''pending'' \<rparr>) e = Inr (?p, ?s1)"
    using fresh pid by (simp add: Payment_create_def times Let_def)
  have send: "\<And>m. sendToTerminal ?s1 tid m = (False, ?s1 \<lparr> trace := trace s @ [Not_delivered tid m] \<rparr>)"
    using offline valid
    by (auto simp: sendToTerminal_def isTerminalConnected_def tid split: option.splits)
  have upd: "completedAt_param ''this'' (assign ?p (no_update \<lparr> u_status := Some ''failed'',
                 u_errorCode := Some (Some ''TERMINAL_OFFLINE'') \<rparr>)) = Inr None"
    using times(2) by (simp add: completedAt_param_def assign_def no_update_def)
  show ?thesis
    using valid
    by (simp add: sendPaymentRequest_def tid create send Payment_update_def upd pid Let_def)
       (simp add: assign_def no_update_def update_row_def insert_row_def ptid pid)
qed

theorem sendPaymentRequest_offline_witness:
  "\<not> invalid_terminal_id (JStr ''T1'') \<and> payments example_server (e_uuid example_env) = None \<and>
   \<not> isTerminalConnected example_server (JStr ''T1'') \<and>
   fst (sendPaymentRequest example_server example_env (JStr ''T1'') example_request)
     = Inl (Error ''Terminal not connected'') \<and>
   (\<exists>p. payments (snd (sendPaymentRequest example_server example_env (JStr ''T1'') example_request))
           ''p-1'' = Some p \<and> r_status p = ''failed'' \<and> r_errorCode p = Some ''TERMINAL_OFFLINE'')"
proof -
  have v: "\<not> invalid_terminal_id (JStr ''T1'')" by (rule example_valid)
  have f: "payments example_server (e_uuid example_env) = None"
    by (simp add: example_server_def)
  have off: "\<not> isTerminalConnected example_server (JStr ''T1'')"
    by (simp add: isTerminalConnected_def example_server_def)
  have u: "e_uuid example_env = ''p-1''" by (simp add: example_env_def)
  from sendPaymentRequest_offline [OF v f off, of example_request] v f off u
  show ?thesis by auto
qed

text \<open>
  A terminal id that fails the guard is a validation error: \<open>sendPaymentRequest\<close> throws
  before it creates anything.
\<close>

lemma sendPaymentRequest_invalid_id:
  "invalid_terminal_id terminalId \<Longrightarrow>
   sendPaymentRequest s e terminalId paymentData = (Inl (Error ''Valid Terminal ID is required''), s)"
  by (simp add: sendPaymentRequest_def)

subsection \<open>Channel replacement\<close>

text \<open>
  Claim C6. Let socket \<open>A\<close> register for terminal id \<open>T\<close> and socket \<open>B\<close> register for \<open>T\<close>
  after it. When \<open>A\<close> closes, \<open>T\<close> still maps to \<open>B\<close> and \<open>isTerminalConnected\<close> reports
  \<open>T\<close> connected. When \<open>B\<close> closes afterwards, \<open>T\<close> is reported disconnected, and the
  entry for \<open>T\<close> is gone from the map if \<open>B\<close> was registered under no other id. In any
  state, a socket that closes leaves alone every entry whose stored handle is another
  socket. The keys of the client map are distinct, as the keys of a \<open>Map\<close> are.
\<close>

theorem channel_replacement:
  assumes valid: "\<not> invalid_terminal_id (JStr T)" and known: "terminals s T \<noteq> None"
    and dist: "distinct (map fst (clients s))"
    and ne: "A \<noteq> B" and open_B: "readyState s B = 1"
  shows "map_of (clients (ws_close (handleTerminalReady (handleTerminalReady s A (JStr T)) B (JStr T)) A)) T = Some B \<and>
     isTerminalConnected (ws_close (handleTerminalReady (handleTerminalReady s A (JStr T)) B (JStr T)) A) (JStr T) \<and>
     \<not> isTerminalConnected (ws_close (ws_close (handleTerminalReady (handleTerminalReady s A (JStr T)) B (JStr T)) A) B) (JStr T) \<and>
     ((\<forall>t. t \<noteq> T \<longrightarrow> map_of (clients s) t \<noteq> Some B) \<longrightarrow>
        map_of (clients (ws_close (ws_close (handleTerminalReady (handleTerminalReady s A (JStr T)) B (JStr T)) A) B)) T = None) \<and>
     (\<forall>s' ws t c. distinct (map fst (clients s')) \<and> map_of (clients s') t = Some c \<and> c \<noteq> ws \<longrightarrow>
         map_of (clients (ws_close s' ws)) t = Some c)"
proof -
  let ?s2 = "handleTerminalReady (handleTerminalReady s A (JStr T)) B (JStr T)"
  have c2: "clients ?s2 = AList.update T B (AList.update T A (clients s))"
    and r2: "readyState ?s2 = readyState s"
    using valid known
    by (auto simp: handleTerminalReady_def Terminal_findById_def ws_send_def split: option.splits)
  have d2: "distinct (map fst (clients ?s2))"
    using dist by (simp add: c2 distinct_update)
  have m2: "map_of (clients ?s2) T = Some B"
    by (simp add: c2 update_conv')
  let ?s2' = "?s2 \<lparr> readyState := (readyState ?s2)(A := 3) \<rparr>"
  have m3: "map_of (clients (ws_close ?s2 A)) T = Some B"
    unfolding ws_close_def
    by (rule on_close_only_own [where s = ?s2']) (use d2 m2 ne in simp_all)
  have r3: "readyState (ws_close ?s2 A) B = 1"
    using ne open_B by (simp add: ws_close_def on_close_readyState r2)
  have conn3: "isTerminalConnected (ws_close ?s2 A) (JStr T)"
    using valid m3 r3 by (simp add: isTerminalConnected_def)
  have r4: "readyState (ws_close (ws_close ?s2 A) B) B = 3"
    by (simp add: ws_close_def on_close_readyState)
  have "map_of (clients (ws_close (ws_close ?s2 A) B)) T = None \<or>
        map_of (clients (ws_close (ws_close ?s2 A) B)) T = Some B"
  proof (cases "map_of (clients (ws_close (ws_close ?s2 A) B)) T")
    case None then show ?thesis by simp
  next
    case (Some c)
    then have "map_of (clients (ws_close ?s2 A)) T = Some c"
      unfolding ws_close_def [of "ws_close ?s2 A" B]
      using on_close_subset [of "(ws_close ?s2 A) \<lparr> readyState := (readyState (ws_close ?s2 A))(B := 3) \<rparr>" B T c]
      by simp
    with m3 Some show ?thesis by simp
  qed
  then have conn4: "\<not> isTerminalConnected (ws_close (ws_close ?s2 A) B) (JStr T)"
    using r4 by (auto simp: isTerminalConnected_def)
  have rem: "map_of (clients (ws_close (ws_close ?s2 A) B)) T = None"
    if only: "\<forall>t. t \<noteq> T \<longrightarrow> map_of (clients s) t \<noteq> Some B"
  proof -
    let ?s3 = "ws_close ?s2 A"
    have d3: "distinct (map fst (clients ?s3))"
      using d2 by (simp add: ws_close_def on_close_def distinct_delete split: option.splits)
    have o3: "\<forall>t. t \<noteq> T \<longrightarrow> map_of (clients ?s3) t \<noteq> Some B"
    proof (intro allI impI notI)
      fix t assume "t \<noteq> T" and "map_of (clients ?s3) t = Some B"
      then have "map_of (clients ?s2) t = Some B"
        unfolding ws_close_def
        using on_close_subset [of "?s2 \<lparr> readyState := (readyState ?s2)(A := 3) \<rparr>" A t B] by simp
      with \<open>t \<noteq> T\<close> have "map_of (clients s) t = Some B"
        by (simp add: c2 update_conv')
      with only \<open>t \<noteq> T\<close> show False by blast
    qed
    show ?thesis
      unfolding ws_close_def [of ?s3 B]
      by (rule on_close_removes) (use d3 m3 o3 in simp_all)
  qed
  have gen: "\<forall>s' ws t c. distinct (map fst (clients s')) \<and> map_of (clients s') t = Some c \<and> c \<noteq> ws \<longrightarrow>
         map_of (clients (ws_close s' ws)) t = Some c"
  proof (intro allI impI)
    fix s' :: server and ws t c
    assume h: "distinct (map fst (clients s')) \<and> map_of (clients s') t = Some c \<and> c \<noteq> ws"
    show "map_of (clients (ws_close s' ws)) t = Some c"
      unfolding ws_close_def
      by (rule on_close_only_own) (use h in simp_all)
  qed
  from m3 conn3 conn4 rem gen show ?thesis by blast
qed

theorem channel_replacement_witness:
  "\<not> invalid_terminal_id (JStr ''T1'') \<and> terminals example_server ''T1'' \<noteq> None \<and>
   distinct (map fst (clients example_server)) \<and> (1::nat) \<noteq> 2 \<and> readyState example_server 2 = 1 \<and>
   map_of (clients (ws_close example_replaced 1)) ''T1'' = Some 2 \<and>
   isTerminalConnected (ws_close example_replaced 1) (JStr ''T1'') \<and>
   \<not> isTerminalConnected (ws_close (ws_close example_replaced 1) 2) (JStr ''T1'') \<and>
   map_of (clients (ws_close (ws_close example_replaced 1) 2)) ''T1'' = None"
  using channel_replacement [of "''T1''" example_server 1 2]
  by (simp add: example_valid example_replaced_def example_connected_def)
     (simp add: example_server_def)

subsection \<open>A success rate of zero\<close>

text \<open>
  Claim C7 says that a simulator configured with the success rate 0.0 declines every
  authorization, so that \<open>capturePayment\<close> is never called and the session ends
  \<open>failed\<close>. At the constructor the code does otherwise:
  \<open>new TestBankAPI({ successRate: 0.0 })\<close> reads the option with \<open>||\<close>, so the rate is the
  default 0.9. With the draw 0.5 the authorization succeeds, \<open>capturePayment\<close> is called,
  and the session of a tap on terminal \<open>T1\<close> ends \<open>completed\<close>.
\<close>

theorem zero_rate_option_ignored:
  "successRate (TestBankAPI_new (Some 0) None) = 9 / 10 \<and>
   a_success (authorizePayment (TestBankAPI_new (Some 0) None) example_bank_payment example_random) \<and>
   map_option r_status
     (payments (handleNFCDetected example_connected example_zero_option_bank example_env 200 1
        example_detection) ''p-1'') = Some ''completed'' \<and>
   Bank_capture ''tx-1'' 10000 \<in> set (trace (handleNFCDetected example_connected
        example_zero_option_bank example_env 200 1 example_detection))"
proof -
  let ?p = "Payment_new (nfc_paymentData ''T1'' example_nfc_data) ''p-1'' 100"
  let ?s2 = "ws_send (example_connected \<lparr> payments := [''p-1'' \<mapsto> insert_row ?p 100 None] \<rparr>)
          1 (Payment_status (status_only (Some ''p-1'') ''processing'' ''Processing NFC payment''))"
  let ?ar = "authorizePayment (TestBankAPI_new (Some 0) None) (bankPaymentData ?p) example_random"
  let ?cr = "capturePayment (a_transactionId ?ar) (Some (p_amount ?p)) (1 / 2) 8"
  have rate: "successRate (TestBankAPI_new (Some 0) None) = 9 / 10"
    by (simp add: TestBankAPI_new_def or_real_def)
  have ok: "\<And>d. a_success (authorizePayment (TestBankAPI_new (Some 0) None) d example_random)"
    by (simp add: authorizePayment_def rate example_random_def)
  have i: "p_id ?p = ''p-1''" and n: "p_completedAt ?p = None" by (rule Payment_new_nfc)+
  have st: "payments ?s2 (p_id ?p) = Some (insert_row ?p 100 None)" by (simp add: i ws_send_def)
  have au: "authorize example_zero_option_bank (bankPaymentData ?p) = Inr ?ar"
    by (simp add: example_zero_option_bank_def TestBank_def)
  have ca: "capture example_zero_option_bank (a_transactionId ?ar) (p_amount ?p) = Inr ?cr"
    by (simp add: example_zero_option_bank_def TestBank_def)
  have cs: "c_success ?cr" by (rule example_outcomes)
  have amt: "p_amount ?p = 10000" by (simp add: example_new_payment)
  have run: "map_option r_status
     (payments (handleNFCDetected example_connected example_zero_option_bank example_env 200 1
        example_detection) ''p-1'') = Some ''completed'' \<and>
   Bank_capture ''tx-1'' 10000 \<in> set (trace (handleNFCDetected example_connected
        example_zero_option_bank example_env 200 1 example_detection))"
    unfolding example_tap process_captured [OF st n au ok ca cs]
    by (simp add: i assign_def no_update_def example_outcomes amt)
  from rate ok run show ?thesis by blast
qed

text \<open>
  The same claim at \<open>setSuccessRate(0.0)\<close>, where the code does what the claim says: with
  the rate set to zero every authorization is declined with one of the six codes, the
  session ends \<open>failed\<close> with that code, and the bank cycle consists of the call of
  \<open>authorizePayment\<close> and the push alone, without a call of \<open>capturePayment\<close>.
\<close>

lemma zero_rate_always_declines:
  assumes stored: "payments s (p_id p) = Some row" and fresh: "p_completedAt p = None"
    and draw: "0 \<le> r_success rnd" and err: "0 \<le> r_error rnd" "r_error rnd < 1"
  shows "successRate (setSuccessRate b 0) = 0"
    and "\<not> a_success (authorizePayment (setSuccessRate b 0) d rnd)"
    and "a_errorCode (authorizePayment (setSuccessRate b 0) d rnd)
           \<in> Some ` {''E001'', ''E002'', ''E003'', ''E004'', ''E005'', ''E006''}"
    and "map_option r_status
           (payments (snd (processNFCPaymentWithBank s (TestBank (setSuccessRate b 0) rnd r t)
              now tid p (Some nd))) (p_id p)) = Some ''failed''"
    and "map_option r_errorCode
           (payments (snd (processNFCPaymentWithBank s (TestBank (setSuccessRate b 0) rnd r t)
              now tid p (Some nd))) (p_id p))
           = Some (a_errorCode (authorizePayment (setSuccessRate b 0) (bankPaymentData p) rnd))"
    and "\<exists>ev. trace (snd (processNFCPaymentWithBank s (TestBank (setSuccessRate b 0) rnd r t)
              now tid p (Some nd))) = trace s @ [Bank_authorize (bankPaymentData p), ev] \<and>
            (\<forall>i a. ev \<noteq> Bank_capture i a)"
proof -
  show rate: "successRate (setSuccessRate b 0) = 0" by (simp add: setSuccessRate_def)
  show ns: "\<not> a_success (authorizePayment (setSuccessRate b 0) d rnd)" for d
    using draw by (simp add: authorizePayment_def rate Let_def)
  have "generateRandomError (r_error rnd) \<in> set (map (\<lambda>(c, m). (Some c, m)) messages)"
    using err by (rule generateRandomError_cases)
  then have "fst (generateRandomError (r_error rnd))
      \<in> Some ` {''E001'', ''E002'', ''E003'', ''E004'', ''E005'', ''E006''}"
    by (auto simp: messages_def)
  then show "a_errorCode (authorizePayment (setSuccessRate b 0) d rnd)
           \<in> Some ` {''E001'', ''E002'', ''E003'', ''E004'', ''E005'', ''E006''}"
    using draw by (simp add: authorizePayment_def rate Let_def)
  let ?ar = "authorizePayment (setSuccessRate b 0) (bankPaymentData p) rnd"
  have au: "authorize (TestBank (setSuccessRate b 0) rnd r t) (bankPaymentData p) = Inr ?ar"
    by (simp add: TestBank_def)
  note run = process_auth_declined [OF stored fresh au ns, of now tid nd]
  show "map_option r_status
           (payments (snd (processNFCPaymentWithBank s (TestBank (setSuccessRate b 0) rnd r t)
              now tid p (Some nd))) (p_id p)) = Some ''failed''"
    and "map_option r_errorCode
           (payments (snd (processNFCPaymentWithBank s (TestBank (setSuccessRate b 0) rnd r t)
              now tid p (Some nd))) (p_id p)) = Some (a_errorCode ?ar)"
    by (simp_all add: run assign_def no_update_def)
  show "\<exists>ev. trace (snd (processNFCPaymentWithBank s (TestBank (setSuccessRate b 0) rnd r t)
              now tid p (Some nd))) = trace s @ [Bank_authorize (bankPaymentData p), ev] \<and>
            (\<forall>i a. ev \<noteq> Bank_capture i a)"
    by (simp add: run pushed_def split: option.splits)
qed

subsection \<open>The shape of an authorization result\<close>

text \<open>
  Claim C8. Every result of \<open>authorizePayment\<close> carries the transaction id generated in
  that call and a time stamp. A successful result carries in addition the generated
  authorization code, which consists of digits and upper-case letters, the amount and the
  currency of the request, and the status \<open>authorized\<close>. A failed result carries one of
  the six codes \<open>E001\<close> to \<open>E006\<close> with the message that belongs to the code, and the
  status \<open>declined\<close>. \<open>Math.random()\<close> returns a value in \<open>[0, 1)\<close>, whose radix-36 numeral
  is \<open>0\<close> or \<open>0.\<close> followed by digits.
\<close>

theorem authorizePayment_result_shape:
  assumes "0 \<le> r_error rnd" and "r_error rnd < 1" and "radix36_fraction (r_radix36 rnd)"
  shows "a_transactionId (authorizePayment b pd rnd) = r_transactionId rnd \<and>
         a_timestamp (authorizePayment b pd rnd) = r_timestamp rnd \<and>
         (a_success (authorizePayment b pd rnd) \<longrightarrow>
            a_authCode (authorizePayment b pd rnd) = Some (generateAuthCode (r_radix36 rnd)) \<and>
            list_all is_alnum_upper (generateAuthCode (r_radix36 rnd)) \<and>
            a_amount (authorizePayment b pd rnd) = Some (bp_amount pd) \<and>
            a_currency (authorizePayment b pd rnd) = Some (bp_currency pd) \<and>
            a_errorCode (authorizePayment b pd rnd) = None \<and>
            a_status (authorizePayment b pd rnd) = ''authorized'') \<and>
         (\<not> a_success (authorizePayment b pd rnd) \<longrightarrow>
            (\<exists>c m. a_errorCode (authorizePayment b pd rnd) = Some c \<and>
                   a_errorMessage (authorizePayment b pd rnd) = Some m \<and>
                   (c, m) \<in> set [(''E001'', ''Insufficient funds''), (''E002'', ''Card is blocked''),
                      (''E003'', ''Network connection error''), (''E004'', ''Invalid card data''),
                      (''E005'', ''Card has expired''),
                      (''E006'', ''Transaction declined by issuer'')]) \<and>
            a_authCode (authorizePayment b pd rnd) = None \<and>
            a_status (authorizePayment b pd rnd) = ''declined'')"
proof (cases "r_success rnd < successRate b")
  case True
  then show ?thesis
    using authcode_alnum [OF assms(3)] by (simp add: authorizePayment_def)
next
  case False
  have "generateRandomError (r_error rnd) \<in> set (map (\<lambda>(c, m). (Some c, m)) messages)"
    using assms(1,2) by (rule generateRandomError_cases)
  then obtain c m where cm: "generateRandomError (r_error rnd) = (Some c, m)" "(c, m) \<in> set messages"
    by auto
  from False cm show ?thesis
    by (simp add: authorizePayment_def Let_def messages_def)
qed

theorem authorizePayment_result_shape_witness:
  "0 \<le> r_error example_random \<and> r_error example_random < 1 \<and>
   radix36_fraction (r_radix36 example_random) \<and>
   a_success (authorizePayment (TestBankAPI_new None None) example_bank_payment example_random) \<and>
   a_authCode (authorizePayment (TestBankAPI_new None None) example_bank_payment example_random)
     = Some ''4FZYO8'' \<and>
   a_amount (authorizePayment (TestBankAPI_new None None) example_bank_payment example_random)
     = Some 10000 \<and>
   \<not> a_success (authorizePayment (setSuccessRate (TestBankAPI_new None None) 0)
        example_bank_payment example_random) \<and>
   a_errorCode (authorizePayment (setSuccessRate (TestBankAPI_new None None) 0)
        example_bank_payment example_random) = Some ''E004'' \<and>
   a_status (authorizePayment (setSuccessRate (TestBankAPI_new None None) 0)
        example_bank_payment example_random) = ''declined''"
proof -
  let ?good = "authorizePayment (TestBankAPI_new None None) example_bank_payment example_random"
  let ?bad = "authorizePayment (setSuccessRate (TestBankAPI_new None None) 0)
        example_bank_payment example_random"
  have h1: "0 \<le> r_error example_random" and h2: "r_error example_random < 1"
    by (simp_all add: example_random_def)
  have h3: "radix36_fraction (r_radix36 example_random)"
    unfolding example_random_def by code_simp
  have s1: "a_success ?good"
    by (simp add: authorizePayment_def TestBankAPI_new_def or_real_def example_random_def)
  have s2: "\<not> a_success ?bad"
    by (simp add: authorizePayment_def TestBankAPI_new_def setSuccessRate_def or_real_def
        example_random_def Let_def)
  have e2: "a_errorCode ?bad = Some ''E004''"
    by (simp add: authorizePayment_def TestBankAPI_new_def setSuccessRate_def or_real_def
        example_random_def Let_def generateRandomError_def errorCodes_def)
  have g: "a_authCode ?good = Some (generateAuthCode (r_radix36 example_random)) \<and>
           a_amount ?good = Some (bp_amount example_bank_payment)"
    using authorizePayment_result_shape [OF h1 h2 h3, of "TestBankAPI_new None None"
        example_bank_payment] s1 by blast
  have b: "a_status ?bad = ''declined''"
    using authorizePayment_result_shape [OF h1 h2 h3,
        of "setSuccessRate (TestBankAPI_new None None) 0" example_bank_payment] s2 by blast
  have a: "bp_amount example_bank_payment = 10000"
    by (simp add: example_bank_payment_def)
  from g have g1: "a_authCode ?good = Some ''4FZYO8''" and g2: "a_amount ?good = Some 10000"
    by (simp_all add: example_authcode a)
  from h1 h2 h3 s1 g1 g2 s2 e2 b show ?thesis by blast
qed

subsection \<open>The amount of a session\<close>

text \<open>
  Claim C9 says that every session record has a positive amount, a request with a
  missing or non-positive amount being rejected before a record is made. At the route
  \<open>POST /api/terminals/:id/activate\<close> the code does otherwise: the route passes the amount
  of the body to \<open>sendPaymentRequest\<close> unchecked, and neither \<open>sendPaymentRequest\<close> nor
  the \<open>Payment\<close> constructor looks at its sign. For the body \<open>{ amount: -5 }\<close> and the
  connected terminal \<open>T1\<close> the answer is 200, a session with the amount \<open>-5\<close> and the
  status \<open>pending\<close> is stored, and the terminal receives the request. The sibling route
  \<open>POST /api/terminals/:id/payment-request\<close> answers the same body with 400 and leaves the
  state alone.
\<close>

theorem activate_stores_negative_amount:
  "fst (post_activate example_connected example_env ''T1'' example_negative_request) =
     Http 200 ''Terminal activated successfully''
       (Some \<lparr> p_id = ''p-1'', p_terminalId = ''T1'', p_amount = - 5, p_currency = ''RUB'',
               p_method = ''nfc'', p_status = ''pending'', p_bankTransactionId = None,
               p_errorCode = None, p_createdAt = Date 100, p_completedAt = None \<rparr>) \<and>
   map_option r_amount
     (payments (snd (post_activate example_connected example_env ''T1'' example_negative_request))
        ''p-1'') = Some (- 5) \<and>
   last (trace (snd (post_activate example_connected example_env ''T1'' example_negative_request)))
     = Sent 1 (Payment_request ''p-1'' (- 5) ''RUB'' ''nfc'' False) \<and>
   post_payment_request example_connected example_env ''T1'' example_negative_request =
     (Http 400 ''Valid amount is required'' None, example_connected)"
proof -
  have conn: "isTerminalConnected example_connected (JStr ''T1'')"
    using example_valid by (simp add: isTerminalConnected_def example_connected_simps)
  let ?q = "\<lparr> q_amount = Some (- 5), q_currency = Some ''RUB'', q_method = Some ''nfc'',
              q_testPayment = Some False \<rparr>"
  let ?p = "\<lparr> p_id = ''p-1'', p_terminalId = ''T1'', p_amount = - 5, p_currency = ''RUB'',
               p_method = ''nfc'', p_status = ''pending'', p_bankTransactionId = None,
               p_errorCode = None, p_createdAt = Date 100, p_completedAt = None \<rparr>"
  have send: "sendPaymentRequest example_connected example_env (JStr ''T1'') ?q =
      (Inr ?p, ws_send (example_connected \<lparr> payments := [''p-1'' \<mapsto> insert_row ?p 100 None] \<rparr>) 1
                 (Payment_request ''p-1'' (- 5) ''RUB'' ''nfc'' False))"
    using example_valid
    by (simp add: sendPaymentRequest_def Payment_create_def Payment_new_def no_data_def
        or_str_def or_int_def truthy_str_def example_env_def example_connected_simps
        completedAt_param_def sendToTerminal_def Let_def)
  have act: "post_activate example_connected example_env ''T1'' example_negative_request =
      (Http 200 ''Terminal activated successfully'' (Some ?p),
       ws_send (example_connected \<lparr> payments := [''p-1'' \<mapsto> insert_row ?p 100 None] \<rparr>) 1
                 (Payment_request ''p-1'' (- 5) ''RUB'' ''nfc'' False))"
    using conn
    by (simp add: post_activate_def example_negative_request_def example_connected_simps send)
  have req: "post_payment_request example_connected example_env ''T1'' example_negative_request =
     (Http 400 ''Valid amount is required'' None, example_connected)"
    by (simp add: post_payment_request_def example_negative_request_def)
  from act req show ?thesis by (simp add: ws_send_def insert_row_def)
qed

subsection \<open>The terminal handshake\<close>

text \<open>
  Claim C10. \<open>handleTerminalReady\<close> registers the socket under the terminal id and sends
  it a \<open>terminal_config\<close> message exactly when the id is a non-empty string that is not
  all white space and a terminal with that id is in the database. In every other case
  it sends an \<open>error\<close> message on the socket and leaves the client map as it was.
\<close>

theorem handleTerminalReady_registers:
  "(\<not> invalid_terminal_id terminalId \<and> terminals s (the_string terminalId) \<noteq> None \<longrightarrow>
      clients (handleTerminalReady s ws terminalId) =
        AList.update (the_string terminalId) ws (clients s) \<and>
      map_of (clients (handleTerminalReady s ws terminalId)) (the_string terminalId) = Some ws \<and>
      (\<exists>terminal. trace (handleTerminalReady s ws terminalId) =
          trace s @ [Sent ws (Terminal_config (the_string terminalId) terminal)])) \<and>
   (invalid_terminal_id terminalId \<or> terminals s (the_string terminalId) = None \<longrightarrow>
      clients (handleTerminalReady s ws terminalId) = clients s \<and>
      (\<exists>m. trace (handleTerminalReady s ws terminalId) = trace s @ [Sent ws (Error_msg m None)])) \<and>
   (invalid_terminal_id terminalId \<longleftrightarrow>
      (\<forall>str. terminalId = JStr str \<longrightarrow> str = [] \<or> list_all is_ws str))"
proof -
  have "invalid_terminal_id terminalId \<longleftrightarrow>
      (\<forall>str. terminalId = JStr str \<longrightarrow> str = [] \<or> list_all is_ws str)"
    by (cases terminalId) (auto simp: invalid_terminal_id_def trim_empty_iff)
  then show ?thesis
    by (auto simp: handleTerminalReady_def Terminal_findById_def ws_send_def update_conv'
        split: option.splits)
qed

theorem handleTerminalReady_registers_witness:
  "\<not> invalid_terminal_id (JStr ''T1'') \<and> terminals example_server ''T1'' \<noteq> None \<and>
   map_of (clients (handleTerminalReady example_server 1 (JStr ''T1''))) ''T1'' = Some 1 \<and>
   invalid_terminal_id (JStr ''  '') \<and>
   clients (handleTerminalReady example_server 1 (JStr ''  '')) = clients example_server \<and>
   terminals example_server ''T2'' = None \<and>
   clients (handleTerminalReady example_server 1 (JStr ''T2'')) = clients example_server"
  using handleTerminalReady_registers [of "JStr ''T1''" example_server 1]
    handleTerminalReady_registers [of "JStr ''  ''" example_server 1]
    handleTerminalReady_registers [of "JStr ''T2''" example_server 1]
  by (simp add: example_valid)
     (simp add: example_server_def invalid_terminal_id_def trim_def is_ws_def)

end
